theory Spec2Isabelle
  imports Complex_Main "HOL-Library.Word" "HOL-Library.Multiset"
begin

section \<open>JavaScript strings and values\<close>

text \<open>
  A JavaScript string is a sequence of 16-bit code units. \<open>js\<close> writes a literal: every
  character of the literals of this program is below U+0100, so its code unit is its
  Latin-1 code (\<open>CHR 0xE1\<close> is the a-acute of the Spanish error messages).
\<close>

type_synonym utf16 = "16 word"
type_synonym js_string = "utf16 list"

definition js :: "string \<Rightarrow> js_string" where
  "js s = map (\<lambda>c. of_nat (of_char c)) s"

text \<open>
  \<open>String.prototype.trim\<close> removes the WhiteSpace and LineTerminator code points of
  ECMAScript from both ends.
\<close>

definition isWhiteSpace :: "utf16 \<Rightarrow> bool" where
  "isWhiteSpace c =
     (c \<in> {0x0009, 0x000A, 0x000B, 0x000C, 0x000D, 0x0020, 0x00A0, 0x1680,
            0x2028, 0x2029, 0x202F, 0x205F, 0x3000, 0xFEFF}
      \<or> (0x2000 \<le> c \<and> c \<le> 0x200A))"

definition trim :: "js_string \<Rightarrow> js_string" where
  "trim s = rev (dropWhile isWhiteSpace (rev (dropWhile isWhiteSpace s)))"

fun startsWith :: "js_string \<Rightarrow> js_string \<Rightarrow> bool" where
  "startsWith s [] = True"
| "startsWith [] (c # cs) = False"
| "startsWith (d # ds) (c # cs) = (d = c \<and> startsWith ds cs)"

text \<open>\<open>String.prototype.includes\<close>: the search string occurs at some position.\<close>

fun js_includes :: "js_string \<Rightarrow> js_string \<Rightarrow> bool" where
  "js_includes [] sub = startsWith [] sub"
| "js_includes (d # ds) sub = (startsWith (d # ds) sub \<or> js_includes ds sub)"

text \<open>
  The values a field of a parsed JSON body (or a missing field) can hold. Of a number the
  code observes only whether it is zero, of an object or array only that it is one.
\<close>

datatype js_value =
    JUndefined
  | JNull
  | JBoolean bool
  | JNumber real
  | JString js_string
  | JObject

fun truthy :: "js_value \<Rightarrow> bool" where
  "truthy JUndefined = False"
| "truthy JNull = False"
| "truthy (JBoolean b) = b"
| "truthy (JNumber x) = (x \<noteq> 0)"
| "truthy (JString s) = (s \<noteq> [])"
| "truthy JObject = True"

fun typeof :: "js_value \<Rightarrow> js_string" where
  "typeof JUndefined = js ''undefined''"
| "typeof JNull = js ''object''"
| "typeof (JBoolean b) = js ''boolean''"
| "typeof (JNumber x) = js ''number''"
| "typeof (JString s) = js ''string''"
| "typeof JObject = js ''object''"

text \<open>The characters of a string value; the code reads them only where \<open>typeof\<close> has
  answered \<open>string\<close>.\<close>

fun text_of :: "js_value \<Rightarrow> js_string" where
  "text_of (JString s) = s"
| "text_of v = []"

text \<open>What a \<open>throw\<close> raises: an \<open>Error\<close> with its message, or any other value.\<close>

datatype thrown = Error js_string | NonError


section \<open>Data model\<close>

text \<open>An ObjectId is twelve bytes.\<close>

type_synonym object_id = "96 word"
type_synonym date = int

text \<open>
  Modelled from the spec: the User model (models/user) is not among the sources. The
  messaging logic consults the identifier and the availability flag, and \<open>populate\<close>
  projects name and email.
\<close>

record user =
  u_id :: object_id
  name :: js_string
  email :: js_string
  available :: bool

text \<open>The projection \<open>populate(path, 'name email')\<close> puts in place of a reference.\<close>

record populated_user =
  p_id :: object_id
  p_name :: js_string
  p_email :: js_string

text \<open>
  A Message document has the paths of the Message schema (models/Message.ts) and no
  other: \<open>content\<close>, \<open>sender\<close>, \<open>receiver\<close>, \<open>read\<close>, \<open>createdAt\<close>, and its \<open>_id\<close>.
  The type of the two references is a parameter: identifiers in the collection, the
  populated user (or null) in what the read, update and delete paths return.
\<close>

record 'r message =
  m_id :: object_id
  content :: js_string
  sender :: 'r
  receiver :: 'r
  read :: bool
  createdAt :: date

type_synonym stored_message = "object_id message"
type_synonym populated_message = "populated_user option message"

text \<open>
  The state the service works on: the two collections, and the last reading of the
  clock. \<open>new Date()\<close> reads the clock: time does not run backwards, so a reading is the
  last one plus the time elapsed since.
\<close>

record world =
  users :: "user list"
  messages :: "stored_message list"
  clock :: date

definition newDate :: "nat \<Rightarrow> world \<Rightarrow> date" where
  "newDate elapsed w = clock w + int elapsed"

section \<open>Requests as programs of queries\<close>

text \<open>
  A method of the service is an \<open>async\<close> function: a program that ends with a value or
  makes a query and goes on with its result. A query is one request to the store and is
  carried out as one indivisible step: it changes the state and, from the state it found,
  settles how the program goes on. The program sees the store through its queries only.
\<close>

datatype 'a prog = Done 'a | Step "world \<Rightarrow> world" "world \<Rightarrow> 'a prog"

text \<open>\<open>await\<close> of a query, and what follows it.\<close>

definition await :: "(world \<Rightarrow> 'r \<times> world) \<Rightarrow> ('r \<Rightarrow> 'a prog) \<Rightarrow> 'a prog" where
  "await query k = Step (\<lambda>w. snd (query w)) (\<lambda>w. k (fst (query w)))"

text \<open>A request that runs alone.\<close>

primrec run :: "'a prog \<Rightarrow> world \<Rightarrow> 'a \<times> world" where
  "run (Done a) w = (a, w)"
| "run (Step act k) w = run (k w) (act w)"


section \<open>The object-document mapper\<close>

text \<open>
  What a filter value selects on an ObjectId path once the mapper has cast it: the
  documents holding one identifier, every document (the key constrains nothing), or none.
\<close>

datatype condition = Is object_id | Any | Nothing

fun holds :: "condition \<Rightarrow> object_id \<Rightarrow> bool" where
  "holds (Is i) x = (x = i)"
| "holds Any x = True"
| "holds Nothing x = False"

text \<open>
  The library is a parameter of the service: \<open>isValid\<close> is
  \<open>mongoose.Types.ObjectId.isValid\<close>; \<open>castObjectId\<close> is the cast of a filter value on
  an ObjectId path, \<open>None\<close> when the value cannot be cast; \<open>castErrorMessage\<close> gives the
  message of the CastError raised then, from the model, the path and the value.
\<close>

record odm =
  isValid :: "js_value \<Rightarrow> bool"
  castObjectId :: "js_value \<Rightarrow> condition option"
  castErrorMessage :: "string \<Rightarrow> string \<Rightarrow> js_value \<Rightarrow> js_string"

definition cast_condition :: "odm \<Rightarrow> string \<Rightarrow> string \<Rightarrow> js_value \<Rightarrow> thrown + condition" where
  "cast_condition lib model path v =
     (case castObjectId lib v of
        None \<Rightarrow> Inl (Error (castErrorMessage lib model path v))
      | Some c \<Rightarrow> Inr c)"

text \<open>The cast of a filter with two ObjectId paths, in the order of its keys.\<close>

definition cast_filter ::
  "odm \<Rightarrow> string \<Rightarrow> string \<Rightarrow> js_value \<Rightarrow> string \<Rightarrow> js_value
     \<Rightarrow> thrown + condition \<times> condition" where
  "cast_filter lib model path1 v1 path2 v2 =
     (case cast_condition lib model path1 v1 of
        Inl e \<Rightarrow> Inl e
      | Inr c1 \<Rightarrow>
          (case cast_condition lib model path2 v2 of
             Inl e \<Rightarrow> Inl e
           | Inr c2 \<Rightarrow> Inr (c1, c2)))"

section \<open>The persistence layer\<close>

text \<open>
  A collection is the list of its documents. The operations on lists come first, then the
  queries on the two models, which cast the filter and work on the collection.
\<close>

definition find_docs :: "('d \<Rightarrow> bool) \<Rightarrow> 'd list \<Rightarrow> 'd list" where
  "find_docs p docs = filter p docs"

text \<open>\<open>sort({ createdAt: -1 })\<close>: most recent first.\<close>

definition sort_createdAt_desc :: "'r message list \<Rightarrow> 'r message list" where
  "sort_createdAt_desc docs = sort_key (\<lambda>m. - createdAt m) docs"

text \<open>
  The match-and-mutate primitives: one pass over the collection that changes (or removes)
  the first document the filter selects and returns it, \<open>None\<close> when it selects none.
  \<open>findOneAndUpdate\<close> runs with \<open>new: true\<close> and returns the document as updated.
\<close>

fun findOneAndUpdate :: "('d \<Rightarrow> bool) \<Rightarrow> ('d \<Rightarrow> 'd) \<Rightarrow> 'd list \<Rightarrow> 'd option \<times> 'd list" where
  "findOneAndUpdate p f [] = (None, [])"
| "findOneAndUpdate p f (d # ds) =
     (if p d then (Some (f d), f d # ds)
      else (fst (findOneAndUpdate p f ds), d # snd (findOneAndUpdate p f ds)))"

fun findOneAndDelete :: "('d \<Rightarrow> bool) \<Rightarrow> 'd list \<Rightarrow> 'd option \<times> 'd list" where
  "findOneAndDelete p [] = (None, [])"
| "findOneAndDelete p (d # ds) =
     (if p d then (Some d, ds)
      else (fst (findOneAndDelete p ds), d # snd (findOneAndDelete p ds)))"

definition populate_ref :: "user list \<Rightarrow> object_id \<Rightarrow> populated_user option" where
  "populate_ref us i =
     map_option (\<lambda>u. \<lparr>p_id = u_id u, p_name = name u, p_email = email u\<rparr>)
       (find (\<lambda>u. u_id u = i) us)"

definition populate :: "user list \<Rightarrow> stored_message \<Rightarrow> populated_message" where
  "populate us m =
     \<lparr>m_id = m_id m, content = content m,
      sender = populate_ref us (sender m), receiver = populate_ref us (receiver m),
      read = read m, createdAt = createdAt m\<rparr>"

text \<open>
  \<open>$set: { content, updatedAt }\<close> on a Message. The schema is strict and has a
  \<open>content\<close> path and no \<open>updatedAt\<close> path: the first assignment is applied, the second is
  dropped.
\<close>

definition set_content_updatedAt :: "js_string \<Rightarrow> date \<Rightarrow> stored_message \<Rightarrow> stored_message" where
  "set_content_updatedAt newContent stamp m = m\<lparr>content := newContent\<rparr>"

text \<open>\<open>UserModel.findOne({ _id: id, available: true })\<close>.\<close>

definition UserModel_findOne :: "odm \<Rightarrow> js_value \<Rightarrow> world \<Rightarrow> (thrown + user option) \<times> world" where
  "UserModel_findOne lib ident w =
     ((case cast_condition lib ''User'' ''_id'' ident of
         Inl e \<Rightarrow> Inl e
       | Inr c \<Rightarrow> Inr (find (\<lambda>u. holds c (u_id u) \<and> available u) (users w))),
      w)"

text \<open>\<open>newMessage.save()\<close>.\<close>

definition MessageModel_save :: "stored_message \<Rightarrow> world \<Rightarrow> stored_message \<times> world" where
  "MessageModel_save doc w = (doc, w\<lparr>messages := messages w @ [doc]\<rparr>)"

text \<open>
  \<open>MessageModel.find({ $or: [{ sender: userId1, receiver: userId2 },
  { sender: userId2, receiver: userId1 }] })\<close>.
\<close>

definition MessageModel_find ::
  "odm \<Rightarrow> js_value \<Rightarrow> js_value \<Rightarrow> world \<Rightarrow> (thrown + stored_message list) \<times> world" where
  "MessageModel_find lib userId1 userId2 w =
     ((case cast_filter lib ''Message'' ''sender'' userId1 ''receiver'' userId2 of
         Inl e \<Rightarrow> Inl e
       | Inr (s1, r2) \<Rightarrow>
           (case cast_filter lib ''Message'' ''sender'' userId2 ''receiver'' userId1 of
              Inl e \<Rightarrow> Inl e
            | Inr (s2, r1) \<Rightarrow>
                Inr (find_docs (\<lambda>m. (holds s1 (sender m) \<and> holds r2 (receiver m))
                                 \<or> (holds s2 (sender m) \<and> holds r1 (receiver m)))
                      (messages w)))),
      w)"

text \<open>\<open>MessageModel.findOneAndUpdate({ _id: messageId, sender: senderId }, update)\<close>.\<close>

definition MessageModel_findOneAndUpdate ::
  "odm \<Rightarrow> js_value \<Rightarrow> js_value \<Rightarrow> (stored_message \<Rightarrow> stored_message) \<Rightarrow> world
     \<Rightarrow> (thrown + stored_message option) \<times> world" where
  "MessageModel_findOneAndUpdate lib messageId senderId update w =
     (case cast_filter lib ''Message'' ''_id'' messageId ''sender'' senderId of
        Inl e \<Rightarrow> (Inl e, w)
      | Inr (i, s) \<Rightarrow>
          (Inr (fst (findOneAndUpdate (\<lambda>m. holds i (m_id m) \<and> holds s (sender m)) update
                       (messages w))),
           w\<lparr>messages := snd (findOneAndUpdate (\<lambda>m. holds i (m_id m) \<and> holds s (sender m))
                                update (messages w))\<rparr>))"

text \<open>\<open>MessageModel.findOneAndDelete({ _id: messageId, sender: senderId })\<close>.\<close>

definition MessageModel_findOneAndDelete ::
  "odm \<Rightarrow> js_value \<Rightarrow> js_value \<Rightarrow> world \<Rightarrow> (thrown + stored_message option) \<times> world" where
  "MessageModel_findOneAndDelete lib messageId senderId w =
     (case cast_filter lib ''Message'' ''_id'' messageId ''sender'' senderId of
        Inl e \<Rightarrow> (Inl e, w)
      | Inr (i, s) \<Rightarrow>
          (Inr (fst (findOneAndDelete (\<lambda>m. holds i (m_id m) \<and> holds s (sender m))
                       (messages w))),
           w\<lparr>messages := snd (findOneAndDelete (\<lambda>m. holds i (m_id m) \<and> holds s (sender m))
                                (messages w))\<rparr>))"

text \<open>
  The query modifiers chained on a query: \<open>.populate('sender', 'name email')
  .populate('receiver', 'name email')\<close> on a query for one document, and
  \<open>.sort({ createdAt: -1 })\<close> with the same two on a query for many. The chain is
  awaited once and is one query of the program: its references are resolved against the
  user collection, which none of these queries changes.
\<close>

definition populated ::
  "(world \<Rightarrow> (thrown + stored_message option) \<times> world)
     \<Rightarrow> world \<Rightarrow> (thrown + populated_message option) \<times> world" where
  "populated query w =
     (case fst (query w) of
        Inl e \<Rightarrow> Inl e
      | Inr found \<Rightarrow> Inr (map_option (populate (users w)) found),
      snd (query w))"

definition sorted_populated ::
  "(world \<Rightarrow> (thrown + stored_message list) \<times> world)
     \<Rightarrow> world \<Rightarrow> (thrown + populated_message list) \<times> world" where
  "sorted_populated query w =
     (case fst (query w) of
        Inl e \<Rightarrow> Inl e
      | Inr found \<Rightarrow> Inr (map (populate (users w)) (sort_createdAt_desc found)),
      snd (query w))"

section \<open>MessageService\<close>

text \<open>
  \<open>sendMessage\<close>. Besides its three arguments it takes the identifier the driver
  generates for the new document and the time elapsed since the last clock reading.
  \<open>Promise.all\<close> starts both lookups and rejects with the first rejection, the
  sender's before the receiver's; the two results are tested only when both have come.
\<close>

definition sendMessage_steps ::
  "odm \<Rightarrow> js_value \<Rightarrow> js_value \<Rightarrow> js_value \<Rightarrow> object_id \<Rightarrow> nat
     \<Rightarrow> (thrown + stored_message) prog" where
  "sendMessage_steps lib senderId receiverId cont newId elapsed =
     (if \<not> truthy cont \<or> typeof cont \<noteq> js ''string'' \<or> length (trim (text_of cont)) = 0
      then Done (Inl (Error (js ''El contenido del mensaje es requerido'')))
      else
        await (UserModel_findOne lib senderId) (\<lambda>sender_result.
        await (UserModel_findOne lib receiverId) (\<lambda>receiver_result.
          case sender_result of
            Inl e \<Rightarrow> Done (Inl e)
          | Inr sender_doc \<Rightarrow>
             (case receiver_result of
                Inl e \<Rightarrow> Done (Inl e)
              | Inr receiver_doc \<Rightarrow>
                 (case sender_doc of
                    None \<Rightarrow> Done (Inl (Error (js ''Remitente no encontrado o no disponible'')))
                  | Some s \<Rightarrow>
                     (case receiver_doc of
                        None \<Rightarrow>
                          Done (Inl (Error (js ''Destinatario no encontrado o no disponible'')))
                      | Some r \<Rightarrow>
                          await (\<lambda>w. MessageModel_save
                                       \<lparr>m_id = newId, content = trim (text_of cont),
                                        sender = u_id s, receiver = u_id r,
                                        read = False, createdAt = newDate elapsed w\<rparr>
                                       (w\<lparr>clock := newDate elapsed w\<rparr>))
                            (\<lambda>saved. Done (Inr saved))))))))"

definition sendMessage ::
  "odm \<Rightarrow> js_value \<Rightarrow> js_value \<Rightarrow> js_value \<Rightarrow> object_id \<Rightarrow> nat \<Rightarrow> world
     \<Rightarrow> (thrown + stored_message) \<times> world" where
  "sendMessage lib senderId receiverId cont newId elapsed w =
     run (sendMessage_steps lib senderId receiverId cont newId elapsed) w"

definition getMessagesBetweenUsers_steps ::
  "odm \<Rightarrow> js_value \<Rightarrow> js_value \<Rightarrow> (thrown + populated_message list) prog" where
  "getMessagesBetweenUsers_steps lib userId1 userId2 =
     await (sorted_populated (MessageModel_find lib userId1 userId2)) Done"

definition getMessagesBetweenUsers ::
  "odm \<Rightarrow> js_value \<Rightarrow> js_value \<Rightarrow> world \<Rightarrow> (thrown + populated_message list) \<times> world" where
  "getMessagesBetweenUsers lib userId1 userId2 w =
     run (getMessagesBetweenUsers_steps lib userId1 userId2) w"

text \<open>
  \<open>updateMessage\<close> and \<open>deleteMessage\<close>. The update object, with its \<open>new Date()\<close>,
  is built as the query is made.
\<close>

definition updateMessage_steps ::
  "odm \<Rightarrow> js_value \<Rightarrow> js_value \<Rightarrow> js_value \<Rightarrow> nat \<Rightarrow> (thrown + populated_message) prog" where
  "updateMessage_steps lib messageId newContent senderId elapsed =
     (if \<not> isValid lib messageId
      then Done (Inl (Error (js (''ID de mensaje inv'' @ [CHR 0xE1] @ ''lido''))))
      else if \<not> truthy newContent \<or> typeof newContent \<noteq> js ''string''
              \<or> length (trim (text_of newContent)) = 0
      then Done (Inl (Error (js ''El contenido del mensaje es requerido'')))
      else if \<not> isValid lib senderId
      then Done (Inl (Error (js (''ID de remitente inv'' @ [CHR 0xE1] @ ''lido''))))
      else
        await (populated (\<lambda>w. MessageModel_findOneAndUpdate lib messageId senderId
                                (set_content_updatedAt (trim (text_of newContent))
                                   (newDate elapsed w))
                                (w\<lparr>clock := newDate elapsed w\<rparr>)))
          (\<lambda>updatedMessage.
             case updatedMessage of
               Inl e \<Rightarrow> Done (Inl e)
             | Inr None \<Rightarrow>
                 Done (Inl (Error
                   (js ''Mensaje no encontrado o no tienes permiso para editarlo'')))
             | Inr (Some m) \<Rightarrow> Done (Inr m)))"

definition updateMessage ::
  "odm \<Rightarrow> js_value \<Rightarrow> js_value \<Rightarrow> js_value \<Rightarrow> nat \<Rightarrow> world
     \<Rightarrow> (thrown + populated_message) \<times> world" where
  "updateMessage lib messageId newContent senderId elapsed w =
     run (updateMessage_steps lib messageId newContent senderId elapsed) w"

definition deleteMessage_steps ::
  "odm \<Rightarrow> js_value \<Rightarrow> js_value \<Rightarrow> (thrown + populated_message) prog" where
  "deleteMessage_steps lib messageId senderId =
     (if \<not> isValid lib messageId
      then Done (Inl (Error (js (''ID de mensaje inv'' @ [CHR 0xE1] @ ''lido''))))
      else if \<not> isValid lib senderId
      then Done (Inl (Error (js (''ID de remitente inv'' @ [CHR 0xE1] @ ''lido''))))
      else
        await (populated (MessageModel_findOneAndDelete lib messageId senderId))
          (\<lambda>deletedMessage.
             case deletedMessage of
               Inl e \<Rightarrow> Done (Inl e)
             | Inr None \<Rightarrow>
                 Done (Inl (Error
                   (js ''Mensaje no encontrado o no tienes permiso para eliminarlo'')))
             | Inr (Some m) \<Rightarrow> Done (Inr m)))"

definition deleteMessage ::
  "odm \<Rightarrow> js_value \<Rightarrow> js_value \<Rightarrow> world \<Rightarrow> (thrown + populated_message) \<times> world" where
  "deleteMessage lib messageId senderId w = run (deleteMessage_steps lib messageId senderId) w"

section \<open>HTTP handlers\<close>

text \<open>
  What a handler sends: a status and a JSON body, which is \<open>{error: text}\<close>,
  \<open>{message: text}\<close> or the payload.
\<close>

datatype 'a json_body = ErrorBody js_string | MessageBody js_string | Data 'a

record 'a response =
  status :: nat
  body :: "'a json_body"

text \<open>
  \<open>req.params\<close> holds the segments of the path under the names the route gives them;
  reading a name the route does not bind gives \<open>undefined\<close>.
\<close>

type_synonym req_params = "(string \<times> js_string) list"

definition param :: "req_params \<Rightarrow> string \<Rightarrow> js_value" where
  "param ps k = (case map_of ps k of None \<Rightarrow> JUndefined | Some v \<Rightarrow> JString v)"

text \<open>
  The routes of message.routes.ts: \<open>"/:senderId/:recieverId"\<close> for POST and GET,
  \<open>"/:messageId"\<close> for PUT and DELETE.
\<close>

definition route_pair :: "js_string \<Rightarrow> js_string \<Rightarrow> req_params" where
  "route_pair a b = [(''senderId'', a), (''recieverId'', b)]"

definition route_message :: "js_string \<Rightarrow> req_params" where
  "route_message m = [(''messageId'', m)]"

text \<open>The \<open>catch\<close> blocks: the status is chosen by substrings of the error's message.\<close>

fun getMessagesBetweenUsers_catch :: "thrown \<Rightarrow> 'a response" where
  "getMessagesBetweenUsers_catch (Error msg) =
     (if js_includes msg (js (''inv'' @ [CHR 0xE1] @ ''lido''))
      then \<lparr>status = 400, body = ErrorBody msg\<rparr>
      else \<lparr>status = 500, body = ErrorBody msg\<rparr>)"
| "getMessagesBetweenUsers_catch NonError =
     \<lparr>status = 500, body = ErrorBody (js ''Error desconocido al obtener mensajes'')\<rparr>"

fun updateMessage_catch :: "thrown \<Rightarrow> 'a response" where
  "updateMessage_catch (Error msg) =
     (if js_includes msg (js (''inv'' @ [CHR 0xE1] @ ''lido''))
      then \<lparr>status = 400, body = ErrorBody msg\<rparr>
      else if js_includes msg (js ''no tienes permiso'')
      then \<lparr>status = 403, body = ErrorBody msg\<rparr>
      else if js_includes msg (js ''no encontrado'')
      then \<lparr>status = 404, body = ErrorBody msg\<rparr>
      else \<lparr>status = 500, body = ErrorBody msg\<rparr>)"
| "updateMessage_catch NonError =
     \<lparr>status = 500, body = ErrorBody (js ''Error desconocido al actualizar mensaje'')\<rparr>"

fun deleteMessage_catch :: "thrown \<Rightarrow> 'a response" where
  "deleteMessage_catch (Error msg) =
     (if js_includes msg (js (''inv'' @ [CHR 0xE1] @ ''lido''))
      then \<lparr>status = 400, body = ErrorBody msg\<rparr>
      else if js_includes msg (js ''no tienes permiso'')
      then \<lparr>status = 403, body = ErrorBody msg\<rparr>
      else if js_includes msg (js ''no encontrado'')
      then \<lparr>status = 404, body = ErrorBody msg\<rparr>
      else \<lparr>status = 500, body = ErrorBody msg\<rparr>)"
| "deleteMessage_catch NonError =
     \<lparr>status = 500, body = ErrorBody (js ''Error desconocido al eliminar mensaje'')\<rparr>"

definition getMessagesBetweenUsers_handler ::
  "odm \<Rightarrow> req_params \<Rightarrow> world \<Rightarrow> populated_message list response \<times> world" where
  "getMessagesBetweenUsers_handler lib params w =
     (case getMessagesBetweenUsers lib (param params ''userId1'') (param params ''userId2'') w of
        (Inr msgs, w') \<Rightarrow>
          (if length msgs = 0
           then (\<lparr>status = 404,
                  body = MessageBody (js ''No se encontraron mensajes entre estos usuarios'')\<rparr>, w')
           else (\<lparr>status = 200, body = Data msgs\<rparr>, w'))
      | (Inl err, w') \<Rightarrow> (getMessagesBetweenUsers_catch err, w'))"

text \<open>
  The update and delete handlers read \<open>messageId\<close> from the path and \<open>content\<close> and
  \<open>senderId\<close> from the body, where a field is any JSON value or is missing; they pass
  on to the service whatever is truthy.
\<close>

definition updateMessage_handler ::
  "odm \<Rightarrow> req_params \<Rightarrow> js_value \<Rightarrow> js_value \<Rightarrow> nat \<Rightarrow> world
     \<Rightarrow> populated_message response \<times> world" where
  "updateMessage_handler lib params cont senderId elapsed w =
     (if \<not> truthy cont \<or> \<not> truthy senderId
      then (\<lparr>status = 400, body = ErrorBody (js ''content y senderId son requeridos'')\<rparr>, w)
      else
        (case updateMessage lib (param params ''messageId'') cont senderId elapsed w of
           (Inr updatedMessage, w') \<Rightarrow> (\<lparr>status = 200, body = Data updatedMessage\<rparr>, w')
         | (Inl err, w') \<Rightarrow> (updateMessage_catch err, w')))"

definition deleteMessage_handler ::
  "odm \<Rightarrow> req_params \<Rightarrow> js_value \<Rightarrow> world \<Rightarrow> populated_message response \<times> world" where
  "deleteMessage_handler lib params senderId w =
     (if \<not> truthy senderId
      then (\<lparr>status = 400, body = ErrorBody (js ''senderId es requerido'')\<rparr>, w)
      else
        (case deleteMessage lib (param params ''messageId'') senderId w of
           (Inr deletedMessage, w') \<Rightarrow> (\<lparr>status = 200, body = Data deletedMessage\<rparr>, w')
         | (Inl err, w') \<Rightarrow> (deleteMessage_catch err, w')))"

section \<open>Invariant of the state\<close>

text \<open>
  The Message collection gives every document its own \<open>_id\<close>, and no document was
  created after the last reading of the clock.
\<close>

definition store_ok :: "world \<Rightarrow> bool" where
  "store_ok w \<longleftrightarrow>
     distinct (map m_id (messages w)) \<and> list_all (\<lambda>m. createdAt m \<le> clock w) (messages w)"

section \<open>A library and a small state for the checks at concrete inputs\<close>

text \<open>
  An instance of the library, on strings: an identifier is written as 24 hexadecimal
  digits, in either case; a string that is not one cannot be cast, and the CastError
  quotes it. Of the other values, a missing one is not cast and constrains nothing and
  \<open>null\<close> selects no document; numbers, booleans and objects are left out of this
  instance, which rejects them.
\<close>

definition hexDigit :: "utf16 \<Rightarrow> nat option" where
  "hexDigit c =
     (if 0x30 \<le> c \<and> c \<le> 0x39 then Some (unat c - 0x30)
      else if 0x61 \<le> c \<and> c \<le> 0x66 then Some (unat c - 0x57)
      else if 0x41 \<le> c \<and> c \<le> 0x46 then Some (unat c - 0x37)
      else None)"

fun hexValue :: "nat \<Rightarrow> js_string \<Rightarrow> nat option" where
  "hexValue acc [] = Some acc"
| "hexValue acc (c # cs) =
     (case hexDigit c of None \<Rightarrow> None | Some d \<Rightarrow> hexValue (16 * acc + d) cs)"

definition ObjectId_of :: "js_value \<Rightarrow> object_id option" where
  "ObjectId_of v =
     (case v of
        JString s \<Rightarrow> (if length s = 24 then map_option of_nat (hexValue 0 s) else None)
      | _ \<Rightarrow> None)"

definition quoted :: "js_string \<Rightarrow> js_string" where
  "quoted s = [0x22] @ s @ [0x22]"

definition mongoose :: odm where
  "mongoose =
     \<lparr>isValid = (\<lambda>v. ObjectId_of v \<noteq> None),
      castObjectId =
        (\<lambda>v. case v of
                JUndefined \<Rightarrow> Some Any
              | JNull \<Rightarrow> Some Nothing
              | _ \<Rightarrow> map_option Is (ObjectId_of v)),
      castErrorMessage =
        (\<lambda>model path v.
           js ''Cast to ObjectId failed for value '' @ quoted (text_of v)
           @ js '' (type string) at path '' @ quoted (js path)
           @ js '' for model '' @ quoted (js model))\<rparr>"

definition ana_id :: object_id where "ana_id = 0x64b000000000000000000a01"
definition bea_id :: object_id where "bea_id = 0x64b000000000000000000b02"
definition leo_id :: object_id where "leo_id = 0x64b000000000000000000c03"
definition msg1_id :: object_id where "msg1_id = 0x64c000000000000000000001"
definition msg2_id :: object_id where "msg2_id = 0x64c000000000000000000002"
definition msg3_id :: object_id where "msg3_id = 0x64c000000000000000000003"

text \<open>Their spellings as the requests carry them, and two spellings in upper case.\<close>

definition ana_hex :: js_value where "ana_hex = JString (js ''64b000000000000000000a01'')"
definition bea_hex :: js_value where "bea_hex = JString (js ''64b000000000000000000b02'')"
definition leo_hex :: js_value where "leo_hex = JString (js ''64b000000000000000000c03'')"
definition msg1_hex :: js_value where "msg1_hex = JString (js ''64c000000000000000000001'')"
definition msg3_hex :: js_value where "msg3_hex = JString (js ''64c000000000000000000003'')"
definition ana_HEX :: js_value where "ana_HEX = JString (js ''64B000000000000000000A01'')"
definition msg1_HEX :: js_value where "msg1_HEX = JString (js ''64C000000000000000000001'')"

definition ana :: user where
  "ana = \<lparr>u_id = ana_id, name = js ''Ana'', email = js ''ana@example.org'', available = True\<rparr>"
definition bea :: user where
  "bea = \<lparr>u_id = bea_id, name = js ''Bea'', email = js ''bea@example.org'', available = True\<rparr>"
definition leo :: user where
  "leo = \<lparr>u_id = leo_id, name = js ''Leo'', email = js ''leo@example.org'', available = False\<rparr>"

definition msg1 :: stored_message where
  "msg1 = \<lparr>m_id = msg1_id, content = js ''hola'', sender = ana_id, receiver = bea_id,
           read = False, createdAt = 100\<rparr>"
definition msg2 :: stored_message where
  "msg2 = \<lparr>m_id = msg2_id, content = js ''que tal'', sender = bea_id, receiver = ana_id,
           read = False, createdAt = 200\<rparr>"

definition world0 :: world where
  "world0 = \<lparr>users = [ana, bea, leo], messages = [], clock = 50\<rparr>"
definition world2 :: world where
  "world2 = \<lparr>users = [ana, bea, leo], messages = [msg1, msg2], clock = 200\<rparr>"

section \<open>The library at the concrete identifiers\<close>

lemmas example_defs = ana_id_def bea_id_def leo_id_def msg1_id_def msg2_id_def
  msg3_id_def ana_def bea_def leo_def msg1_def msg2_def world0_def world2_def

lemmas hex_defs = ana_hex_def bea_hex_def leo_hex_def msg1_hex_def msg3_hex_def ana_HEX_def
  msg1_HEX_def

lemma ObjectId_of_examples:
  "ObjectId_of ana_hex = Some ana_id" "ObjectId_of bea_hex = Some bea_id"
  "ObjectId_of leo_hex = Some leo_id" "ObjectId_of msg1_hex = Some msg1_id"
  "ObjectId_of msg3_hex = Some msg3_id" "ObjectId_of ana_HEX = Some ana_id"
  "ObjectId_of msg1_HEX = Some msg1_id"
  by (simp_all add: ObjectId_of_def hex_defs example_defs js_def hexDigit_def)

lemma mongoose_cast_examples:
  "castObjectId mongoose ana_hex = Some (Is ana_id)"
  "castObjectId mongoose bea_hex = Some (Is bea_id)"
  "castObjectId mongoose leo_hex = Some (Is leo_id)"
  "castObjectId mongoose msg1_hex = Some (Is msg1_id)"
  "castObjectId mongoose msg3_hex = Some (Is msg3_id)"
  "castObjectId mongoose ana_HEX = Some (Is ana_id)"
  "castObjectId mongoose msg1_HEX = Some (Is msg1_id)"
  using ObjectId_of_examples by (simp_all add: mongoose_def hex_defs)

lemma mongoose_isValid_examples:
  "isValid mongoose ana_hex" "isValid mongoose bea_hex" "isValid mongoose leo_hex"
  "isValid mongoose msg1_hex" "isValid mongoose msg3_hex" "isValid mongoose ana_HEX"
  "isValid mongoose msg1_HEX"
  using ObjectId_of_examples by (simp_all add: mongoose_def)

lemma ids_differ:
  "ana_id \<noteq> bea_id" "ana_id \<noteq> leo_id" "bea_id \<noteq> leo_id" "msg1_id \<noteq> msg2_id"
  "msg1_id \<noteq> msg3_id" "msg2_id \<noteq> msg3_id" "bea_id \<noteq> ana_id" "leo_id \<noteq> ana_id"
  "leo_id \<noteq> bea_id" "msg2_id \<noteq> msg1_id" "msg3_id \<noteq> msg1_id" "msg3_id \<noteq> msg2_id"
  by (simp_all add: example_defs)

lemma mongoose_not_an_id:
  "castObjectId mongoose (JString (js ''not-an-id'')) = None"
  "\<not> isValid mongoose (JString (js ''not-an-id''))"
  by (simp_all add: mongoose_def ObjectId_of_def js_def)

lemma mongoose_valid_casts:
  "isValid mongoose v \<Longrightarrow> \<exists>i. castObjectId mongoose v = Some (Is i)"
  by (cases v) (auto simp: mongoose_def ObjectId_of_def)

section \<open>The collection primitives\<close>

lemma findOneAndUpdate_no_match:
  "\<forall>d \<in> set ds. \<not> p d \<Longrightarrow> findOneAndUpdate p f ds = (None, ds)"
  by (induction ds) simp_all

lemma findOneAndUpdate_first_match:
  "\<exists>d \<in> set ds. p d \<Longrightarrow>
     \<exists>pre x post. ds = pre @ x # post \<and> (\<forall>y \<in> set pre. \<not> p y) \<and> p x
        \<and> findOneAndUpdate p f ds = (Some (f x), pre @ f x # post)"
proof (induction ds)
  case Nil
  then show ?case by simp
next
  case (Cons d ds)
  show ?case
  proof (cases "p d")
    case True
    then have "d # ds = [] @ d # ds \<and> (\<forall>y \<in> set []. \<not> p y) \<and> p d
        \<and> findOneAndUpdate p f (d # ds) = (Some (f d), [] @ f d # ds)"
      by simp
    then show ?thesis by blast
  next
    case False
    with Cons.prems have "\<exists>d \<in> set ds. p d" by auto
    from Cons.IH[OF this] obtain pre x post where
      h: "ds = pre @ x # post" "\<forall>y \<in> set pre. \<not> p y" "p x"
         "findOneAndUpdate p f ds = (Some (f x), pre @ f x # post)"
      by blast
    from h False have "d # ds = (d # pre) @ x # post \<and> (\<forall>y \<in> set (d # pre). \<not> p y) \<and> p x
        \<and> findOneAndUpdate p f (d # ds) = (Some (f x), (d # pre) @ f x # post)"
      by simp
    then show ?thesis by blast
  qed
qed

lemma findOneAndDelete_no_match:
  "\<forall>d \<in> set ds. \<not> p d \<Longrightarrow> findOneAndDelete p ds = (None, ds)"
  by (induction ds) simp_all

lemma findOneAndDelete_first_match:
  "\<exists>d \<in> set ds. p d \<Longrightarrow>
     \<exists>pre x post. ds = pre @ x # post \<and> (\<forall>y \<in> set pre. \<not> p y) \<and> p x
        \<and> findOneAndDelete p ds = (Some x, pre @ post)"
proof (induction ds)
  case Nil
  then show ?case by simp
next
  case (Cons d ds)
  show ?case
  proof (cases "p d")
    case True
    then have "d # ds = [] @ d # ds \<and> (\<forall>y \<in> set []. \<not> p y) \<and> p d
        \<and> findOneAndDelete p (d # ds) = (Some d, [] @ ds)"
      by simp
    then show ?thesis by blast
  next
    case False
    with Cons.prems have "\<exists>d \<in> set ds. p d" by auto
    from Cons.IH[OF this] obtain pre x post where
      h: "ds = pre @ x # post" "\<forall>y \<in> set pre. \<not> p y" "p x"
         "findOneAndDelete p ds = (Some x, pre @ post)"
      by blast
    from h False have "d # ds = (d # pre) @ x # post \<and> (\<forall>y \<in> set (d # pre). \<not> p y) \<and> p x
        \<and> findOneAndDelete p (d # ds) = (Some x, (d # pre) @ post)"
      by simp
    then show ?thesis by blast
  qed
qed

lemma findOneAndDelete_by_id:
  assumes "distinct (map key ds)" and "m \<in> set ds" and "q m"
  shows "findOneAndDelete (\<lambda>d. key d = key m \<and> q d) ds = (Some m, remove1 m ds)"
  using assms
proof (induction ds)
  case Nil
  then show ?case by simp
next
  case (Cons d ds)
  show ?case
  proof (cases "d = m")
    case True
    with Cons.prems show ?thesis by simp
  next
    case False
    with Cons.prems have "m \<in> set ds" by simp
    with Cons.prems have "key d \<noteq> key m" by force
    with Cons.prems Cons.IH \<open>m \<in> set ds\<close> False show ?thesis by simp
  qed
qed

lemma remove1_by_id:
  assumes "distinct (map key ds)" and "m \<in> set ds"
  shows "\<forall>d \<in> set (remove1 m ds). key d \<noteq> key m"
proof -
  from assms(1) have d: "distinct ds" by (simp add: distinct_map)
  show ?thesis
  proof
    fix x assume "x \<in> set (remove1 m ds)"
    with d have "x \<in> set ds" "x \<noteq> m" by auto
    with assms show "key x \<noteq> key m"
      by (metis distinct_map inj_on_eq_iff)
  qed
qed

lemma sort_createdAt_desc_sorted:
  "sorted_wrt (\<lambda>x y. createdAt y \<le> createdAt x) (sort_createdAt_desc ds)"
proof -
  have "sorted (map (\<lambda>m. - createdAt m) (sort_key (\<lambda>m. - createdAt m) ds))"
    by (rule sorted_sort_key)
  then show ?thesis
    unfolding sort_createdAt_desc_def by (simp add: sorted_map)
qed

lemma sort_createdAt_desc_mset: "mset (sort_createdAt_desc ds) = mset ds"
  by (simp add: sort_createdAt_desc_def)

lemma populate_createdAt: "createdAt (populate us m) = createdAt m"
  by (simp add: populate_def)

lemma trim_Nil: "trim [] = []"
  by (simp add: trim_def)

lemma typeof_string_iff: "typeof v = js ''string'' \<longleftrightarrow> (\<exists>s. v = JString s)"
  by (cases v) (simp_all add: js_def)

lemma trim_nonempty: "trim s \<noteq> [] \<Longrightarrow> s \<noteq> []"
  by (auto simp: trim_def)

lemma content_accepted:
  assumes "cont = JString s" and "trim s \<noteq> []"
  shows "\<not> (\<not> truthy cont \<or> typeof cont \<noteq> js ''string'' \<or> length (trim (text_of cont)) = 0)"
  using assms trim_nonempty[of s] by simp

lemma first_match_is_it:
  assumes "distinct (map key ds)" and "m \<in> set ds"
    and "ds = pre @ x # post" and "key x = key m"
  shows "x = m"
proof -
  from assms(3) have "x \<in> set ds" by simp
  with assms(1,2,4) show ?thesis
    by (metis distinct_map inj_on_eq_iff)
qed

lemma replace_by_id:
  assumes "distinct (map key (pre @ m # post))"
  shows "map (\<lambda>x. if key x = key m then u else x) (pre @ m # post) = pre @ u # post"
proof -
  from assms have a: "\<forall>x \<in> set pre. key x \<noteq> key m" and b: "\<forall>x \<in> set post. key x \<noteq> key m"
    by (auto simp: image_iff)
  from a have "map (\<lambda>x. if key x = key m then u else x) pre = pre"
    by (intro map_idI) simp
  moreover from b have "map (\<lambda>x. if key x = key m then u else x) post = post"
    by (intro map_idI) simp
  ultimately show ?thesis by simp
qed

lemma findOneAndUpdate_keeps:
  "(\<And>d. g (f d) = g d) \<Longrightarrow> map g (snd (findOneAndUpdate p f ds)) = map g ds"
  by (induction ds) simp_all

lemma findOneAndDelete_cases:
  "snd (findOneAndDelete p ds) = ds
   \<or> (\<exists>pre x post. ds = pre @ x # post \<and> snd (findOneAndDelete p ds) = pre @ post)"
proof (cases "\<exists>d \<in> set ds. p d")
  case True
  from findOneAndDelete_first_match[OF this] show ?thesis by force
next
  case False
  then have "\<forall>d \<in> set ds. \<not> p d" by simp
  from findOneAndDelete_no_match[OF this] show ?thesis by simp
qed

section \<open>sendMessage\<close>

lemma sendMessage_run:
  assumes "cont = JString s" and "trim s \<noteq> []"
  shows "sendMessage lib senderId receiverId cont newId elapsed w =
     (case castObjectId lib senderId of
        None \<Rightarrow> (Inl (Error (castErrorMessage lib ''User'' ''_id'' senderId)),
                 w)
      | Some cs \<Rightarrow>
         (case castObjectId lib receiverId of
            None \<Rightarrow> (Inl (Error (castErrorMessage lib ''User'' ''_id'' receiverId)),
                     w)
          | Some cr \<Rightarrow>
             (case find (\<lambda>u. holds cs (u_id u) \<and> available u) (users w) of
                None \<Rightarrow> (Inl (Error (js ''Remitente no encontrado o no disponible'')),
                         w)
              | Some su \<Rightarrow>
                 (case find (\<lambda>u. holds cr (u_id u) \<and> available u) (users w) of
                    None \<Rightarrow> (Inl (Error (js ''Destinatario no encontrado o no disponible'')),
                             w)
                  | Some ru \<Rightarrow>
                     (Inr \<lparr>m_id = newId, content = trim s, sender = u_id su, receiver = u_id ru,
                           read = False, createdAt = newDate elapsed w\<rparr>,
                      w\<lparr>messages := messages w @
                           [\<lparr>m_id = newId, content = trim s, sender = u_id su,
                             receiver = u_id ru, read = False,
                             createdAt = newDate elapsed w\<rparr>],
                        clock := newDate elapsed w\<rparr>)))))"
  using content_accepted[OF assms]
  unfolding sendMessage_def sendMessage_steps_def
  by (simp add: assms(1) await_def UserModel_findOne_def cast_condition_def
        MessageModel_save_def newDate_def split: option.split)

lemma find_None_holds: "find p ds = None \<longleftrightarrow> (\<forall>d \<in> set ds. \<not> p d)"
  by (auto simp: find_None_iff)

lemma find_hit: "\<exists>d \<in> set ds. p d \<Longrightarrow> \<exists>d. find p ds = Some d \<and> d \<in> set ds \<and> p d"
proof -
  assume "\<exists>d \<in> set ds. p d"
  then have "find p ds \<noteq> None" by (simp add: find_None_holds)
  then obtain d where d: "find p ds = Some d" by auto
  then have "d \<in> set ds \<and> p d" by (auto simp: find_Some_iff)
  with d show ?thesis by simp
qed

lemma sender_receiver_texts_differ:
  "js ''Remitente no encontrado o no disponible'' \<noteq> js ''Destinatario no encontrado o no disponible''"
  by (simp add: js_def)

text \<open>
  C3. Whatever the library, the two identifiers and the users collection, sendMessage with
  a content that is missing, is not a string, or is empty once trimmed fails with the
  validation error "El contenido del mensaje es requerido", and the state it returns is
  the one it was given: no lookup was made and nothing was written.
\<close>

theorem sendMessage_blank_content:
  assumes "cont = JUndefined \<or> typeof cont \<noteq> js ''string''
             \<or> (\<exists>s. cont = JString s \<and> trim s = [])"
  shows "sendMessage lib senderId receiverId cont newId elapsed w =
           (Inl (Error (js ''El contenido del mensaje es requerido'')), w)"
proof -
  have "\<not> truthy cont \<or> typeof cont \<noteq> js ''string'' \<or> length (trim (text_of cont)) = 0"
    using assms by auto
  then show ?thesis
    unfolding sendMessage_def sendMessage_steps_def by (simp only: if_True run.simps)
qed

theorem sendMessage_blank_content_witness:
  "trim (js ''   '') = [] \<and>
   sendMessage mongoose ana_hex bea_hex (JString (js ''   '')) msg3_id 5 world2 =
     (Inl (Error (js ''El contenido del mensaje es requerido'')), world2)"
  using sendMessage_blank_content[of "JString (js ''   '')" mongoose ana_hex bea_hex msg3_id 5 world2]
  by (simp add: js_def trim_def isWhiteSpace_def)

lemma hey_trim: "trim (js ''hey'') = js ''hey''" "trim (js ''hey'') \<noteq> []"
  by (simp_all add: js_def trim_def isWhiteSpace_def)

lemma users_world2:
  "users world2 = [ana, bea, leo]" "u_id ana = ana_id" "u_id bea = bea_id" "u_id leo = leo_id"
  "available ana" "available bea" "\<not> available leo"
  by (simp_all add: world2_def ana_def bea_def leo_def)

text \<open>
  C4. With a content that passes the check, sendMessage looks each user up by identifier
  among the available ones. When both identifiers can be cast it fails with "Remitente no
  encontrado o no disponible" exactly when no available user has the sender's identifier,
  and with "Destinatario no encontrado o no disponible" exactly when the sender is found
  and no available user has the receiver's identifier; it fails at all exactly when one
  of the two is absent or unavailable, and then nothing is written. An identifier that
  cannot be cast makes it fail with the CastError of the lookup instead, the sender's
  first.
\<close>

theorem sendMessage_lookup_misses:
  assumes "cont = JString s" and "trim s \<noteq> []"
  shows "(castObjectId lib senderId = None \<longrightarrow>
            sendMessage lib senderId receiverId cont newId elapsed w =
              (Inl (Error (castErrorMessage lib ''User'' ''_id'' senderId)),
               w))
       \<and> (castObjectId lib senderId \<noteq> None \<and> castObjectId lib receiverId = None \<longrightarrow>
            sendMessage lib senderId receiverId cont newId elapsed w =
              (Inl (Error (castErrorMessage lib ''User'' ''_id'' receiverId)),
               w))
       \<and> (castObjectId lib senderId = Some (Is sid) \<and> castObjectId lib receiverId = Some (Is rid)
            \<longrightarrow>
            ((\<forall>u \<in> set (users w). u_id u = sid \<longrightarrow> \<not> available u) \<longrightarrow>
               sendMessage lib senderId receiverId cont newId elapsed w =
                 (Inl (Error (js ''Remitente no encontrado o no disponible'')),
                  w))
          \<and> ((\<exists>u \<in> set (users w). u_id u = sid \<and> available u)
               \<and> (\<forall>u \<in> set (users w). u_id u = rid \<longrightarrow> \<not> available u) \<longrightarrow>
               sendMessage lib senderId receiverId cont newId elapsed w =
                 (Inl (Error (js ''Destinatario no encontrado o no disponible'')),
                  w))
          \<and> (fst (sendMessage lib senderId receiverId cont newId elapsed w) =
                 Inl (Error (js ''Remitente no encontrado o no disponible''))
               \<longleftrightarrow> (\<forall>u \<in> set (users w). u_id u = sid \<longrightarrow> \<not> available u))
          \<and> (fst (sendMessage lib senderId receiverId cont newId elapsed w) =
                 Inl (Error (js ''Destinatario no encontrado o no disponible''))
               \<longleftrightarrow> (\<exists>u \<in> set (users w). u_id u = sid \<and> available u)
                   \<and> (\<forall>u \<in> set (users w). u_id u = rid \<longrightarrow> \<not> available u))
          \<and> ((\<exists>e. fst (sendMessage lib senderId receiverId cont newId elapsed w) = Inl e)
               \<longleftrightarrow> (\<forall>u \<in> set (users w). u_id u = sid \<longrightarrow> \<not> available u)
                   \<or> (\<forall>u \<in> set (users w). u_id u = rid \<longrightarrow> \<not> available u)))"
proof -
  let ?r = "sendMessage lib senderId receiverId cont newId elapsed w"
  let ?w2 = "w"
  note run = sendMessage_run[OF assms, of lib senderId receiverId newId elapsed w]
  have A: "?r = (Inl (Error (castErrorMessage lib ''User'' ''_id'' senderId)), ?w2)"
    if "castObjectId lib senderId = None"
    unfolding run using that by simp
  have B: "?r = (Inl (Error (castErrorMessage lib ''User'' ''_id'' receiverId)), ?w2)"
    if "castObjectId lib senderId \<noteq> None \<and> castObjectId lib receiverId = None"
    unfolding run using that by auto
  have C: "((\<forall>u \<in> set (users w). u_id u = sid \<longrightarrow> \<not> available u) \<longrightarrow>
               ?r = (Inl (Error (js ''Remitente no encontrado o no disponible'')), ?w2))
          \<and> ((\<exists>u \<in> set (users w). u_id u = sid \<and> available u)
               \<and> (\<forall>u \<in> set (users w). u_id u = rid \<longrightarrow> \<not> available u) \<longrightarrow>
               ?r = (Inl (Error (js ''Destinatario no encontrado o no disponible'')), ?w2))
          \<and> (fst ?r = Inl (Error (js ''Remitente no encontrado o no disponible''))
               \<longleftrightarrow> (\<forall>u \<in> set (users w). u_id u = sid \<longrightarrow> \<not> available u))
          \<and> (fst ?r = Inl (Error (js ''Destinatario no encontrado o no disponible''))
               \<longleftrightarrow> (\<exists>u \<in> set (users w). u_id u = sid \<and> available u)
                   \<and> (\<forall>u \<in> set (users w). u_id u = rid \<longrightarrow> \<not> available u))
          \<and> ((\<exists>e. fst ?r = Inl e)
               \<longleftrightarrow> (\<forall>u \<in> set (users w). u_id u = sid \<longrightarrow> \<not> available u)
                   \<or> (\<forall>u \<in> set (users w). u_id u = rid \<longrightarrow> \<not> available u))"
    if c: "castObjectId lib senderId = Some (Is sid) \<and> castObjectId lib receiverId = Some (Is rid)"
  proof -
    let ?S = "find (\<lambda>u. holds (Is sid) (u_id u) \<and> available u) (users w)"
    let ?R = "find (\<lambda>u. holds (Is rid) (u_id u) \<and> available u) (users w)"
    have S: "?S = None \<longleftrightarrow> (\<forall>u \<in> set (users w). u_id u = sid \<longrightarrow> \<not> available u)"
      by (auto simp: find_None_holds)
    have R: "?R = None \<longleftrightarrow> (\<forall>u \<in> set (users w). u_id u = rid \<longrightarrow> \<not> available u)"
      by (auto simp: find_None_holds)
    have S': "?S \<noteq> None \<longleftrightarrow> (\<exists>u \<in> set (users w). u_id u = sid \<and> available u)"
      by (auto simp: find_None_holds)
    consider (a) "?S = None" | (b) su where "?S = Some su" "?R = None"
      | (c) su ru where "?S = Some su" "?R = Some ru"
      by (cases ?S; cases ?R) auto
    then show ?thesis
    proof cases
      case a
      have "?r = (Inl (Error (js ''Remitente no encontrado o no disponible'')), ?w2)"
        unfolding run using c a by simp
      with a S S' R sender_receiver_texts_differ show ?thesis by auto
    next
      case b
      have "?r = (Inl (Error (js ''Destinatario no encontrado o no disponible'')), ?w2)"
        unfolding run using c b by simp
      with b S S' R sender_receiver_texts_differ show ?thesis by auto
    next
      case c': c
      have "\<exists>x. fst ?r = Inr x" unfolding run using c c' by simp
      then have "\<forall>e. fst ?r \<noteq> Inl e" by auto
      moreover have "?S \<noteq> None" "?R \<noteq> None" using c' by simp_all
      ultimately show ?thesis using S S' R by auto
    qed
  qed
  from A B C show ?thesis by blast
qed

theorem sendMessage_lookup_misses_witness:
  "sendMessage mongoose leo_hex bea_hex (JString (js ''hey'')) msg3_id 5 world2 =
     (Inl (Error (js ''Remitente no encontrado o no disponible'')),
      world2)
   \<and> sendMessage mongoose msg1_hex bea_hex (JString (js ''hey'')) msg3_id 5 world2 =
     (Inl (Error (js ''Remitente no encontrado o no disponible'')),
      world2)
   \<and> sendMessage mongoose ana_hex leo_hex (JString (js ''hey'')) msg3_id 5 world2 =
     (Inl (Error (js ''Destinatario no encontrado o no disponible'')),
      world2)
   \<and> sendMessage mongoose leo_hex msg1_hex (JString (js ''hey'')) msg3_id 5 world2 =
     (Inl (Error (js ''Remitente no encontrado o no disponible'')),
      world2)
   \<and> (\<exists>m. fst (sendMessage mongoose ana_HEX bea_hex (JString (js ''hey'')) msg3_id 5 world2) = Inr m)
   \<and> sendMessage mongoose ana_hex (JString (js ''not-an-id'')) (JString (js ''hey'')) msg3_id 5 world2 =
     (Inl (Error (js ''Cast to ObjectId failed for value '' @ quoted (js ''not-an-id'')
                  @ js '' (type string) at path '' @ quoted (js ''_id'')
                  @ js '' for model '' @ quoted (js ''User''))),
      world2)"
proof -
  note t = sendMessage_lookup_misses[OF refl hey_trim(2), of mongoose _ _ msg3_id 5 world2]
  note c = mongoose_cast_examples
  have 1: "\<forall>u \<in> set (users world2). u_id u = leo_id \<longrightarrow> \<not> available u"
    by (simp add: users_world2 ids_differ)
  have 2: "\<forall>u \<in> set (users world2). u_id u = msg1_id \<longrightarrow> \<not> available u"
    by (simp add: users_world2 example_defs)
  have 3: "\<exists>u \<in> set (users world2). u_id u = ana_id \<and> available u"
    by (simp add: users_world2)
  have 4: "\<exists>u \<in> set (users world2). u_id u = bea_id \<and> available u"
    by (simp add: users_world2)
  have 5: "\<not> (\<forall>u \<in> set (users world2). u_id u = ana_id \<longrightarrow> \<not> available u)"
    using 3 by blast
  have 6: "\<not> (\<forall>u \<in> set (users world2). u_id u = bea_id \<longrightarrow> \<not> available u)"
    using 4 by blast
  from t[of leo_hex bea_hex leo_id bea_id] c 1
  have a: "sendMessage mongoose leo_hex bea_hex (JString (js ''hey'')) msg3_id 5 world2 =
     (Inl (Error (js ''Remitente no encontrado o no disponible'')),
      world2)"
    by simp
  from t[of msg1_hex bea_hex msg1_id bea_id] c 2
  have b: "sendMessage mongoose msg1_hex bea_hex (JString (js ''hey'')) msg3_id 5 world2 =
     (Inl (Error (js ''Remitente no encontrado o no disponible'')),
      world2)"
    by simp
  from t[of ana_hex leo_hex ana_id leo_id] c 1 3
  have d: "sendMessage mongoose ana_hex leo_hex (JString (js ''hey'')) msg3_id 5 world2 =
     (Inl (Error (js ''Destinatario no encontrado o no disponible'')),
      world2)"
    by simp
  from t[of leo_hex msg1_hex leo_id msg1_id] c 1
  have f: "sendMessage mongoose leo_hex msg1_hex (JString (js ''hey'')) msg3_id 5 world2 =
     (Inl (Error (js ''Remitente no encontrado o no disponible'')),
      world2)"
    by simp
  from t[of ana_HEX bea_hex ana_id bea_id] c 5 6
  have "\<not> (\<exists>e. fst (sendMessage mongoose ana_HEX bea_hex (JString (js ''hey'')) msg3_id 5 world2) = Inl e)"
    by simp
  then have g: "\<exists>m. fst (sendMessage mongoose ana_HEX bea_hex (JString (js ''hey'')) msg3_id 5 world2) = Inr m"
    by (cases "fst (sendMessage mongoose ana_HEX bea_hex (JString (js ''hey'')) msg3_id 5 world2)") auto
  from t[of ana_hex "JString (js ''not-an-id'')"] c mongoose_not_an_id
  have h: "sendMessage mongoose ana_hex (JString (js ''not-an-id'')) (JString (js ''hey'')) msg3_id 5 world2 =
     (Inl (Error (js ''Cast to ObjectId failed for value '' @ quoted (js ''not-an-id'')
                  @ js '' (type string) at path '' @ quoted (js ''_id'')
                  @ js '' for model '' @ quoted (js ''User''))),
      world2)"
    by (simp add: mongoose_def)
  from a b d f g h show ?thesis by blast
qed

text \<open>
  The claim of C4 as it was stated fails for a sender identifier that cannot be cast: no
  user has it, and the operation fails with the CastError of the lookup, not with the
  sender's not-found error (also when the receiver is absent as well).
\<close>

theorem sendMessage_malformed_sender_counterexample:
  "castObjectId mongoose (JString (js ''not-an-id'')) = None
   \<and> fst (sendMessage mongoose (JString (js ''not-an-id'')) bea_hex (JString (js ''hey''))
            msg3_id 5 world2) =
       Inl (Error (js ''Cast to ObjectId failed for value '' @ quoted (js ''not-an-id'')
                   @ js '' (type string) at path '' @ quoted (js ''_id'')
                   @ js '' for model '' @ quoted (js ''User'')))
   \<and> fst (sendMessage mongoose (JString (js ''not-an-id'')) bea_hex (JString (js ''hey''))
            msg3_id 5 world2) \<noteq>
       Inl (Error (js ''Remitente no encontrado o no disponible''))
   \<and> fst (sendMessage mongoose leo_hex (JString (js ''not-an-id'')) (JString (js ''hey''))
            msg3_id 5 world2) \<noteq>
       Inl (Error (js ''Remitente no encontrado o no disponible''))"
proof -
  have r1: "fst (sendMessage mongoose (JString (js ''not-an-id'')) bea_hex (JString (js ''hey''))
            msg3_id 5 world2) =
       Inl (Error (js ''Cast to ObjectId failed for value '' @ quoted (js ''not-an-id'')
                   @ js '' (type string) at path '' @ quoted (js ''_id'')
                   @ js '' for model '' @ quoted (js ''User'')))"
    unfolding sendMessage_run[OF refl hey_trim(2)]
    by (simp add: mongoose_not_an_id) (simp add: mongoose_def)
  have r2: "fst (sendMessage mongoose leo_hex (JString (js ''not-an-id'')) (JString (js ''hey''))
            msg3_id 5 world2) =
       Inl (Error (js ''Cast to ObjectId failed for value '' @ quoted (js ''not-an-id'')
                   @ js '' (type string) at path '' @ quoted (js ''_id'')
                   @ js '' for model '' @ quoted (js ''User'')))"
    unfolding sendMessage_run[OF refl hey_trim(2)]
    by (simp add: mongoose_not_an_id mongoose_cast_examples) (simp add: mongoose_def)
  have d: "js ''Cast to ObjectId failed for value '' @ quoted (js ''not-an-id'')
                   @ js '' (type string) at path '' @ quoted (js ''_id'')
                   @ js '' for model '' @ quoted (js ''User'')
           \<noteq> js ''Remitente no encontrado o no disponible''"
    by (simp add: js_def quoted_def)
  from r1 r2 d mongoose_not_an_id(1) show ?thesis by simp
qed

text \<open>
  C5. With a content that passes the check and two identifiers that name available users,
  sendMessage appends exactly one document to the Message collection and returns it: its
  content is the trimmed input, \<open>read\<close> is false, \<open>createdAt\<close> is the clock reading taken
  by \<open>new Date()\<close>, and its sender and receiver are the identifiers of the two users the
  lookups returned. The user collection is left as it was.
\<close>

theorem sendMessage_persists:
  assumes "cont = JString s" and "trim s \<noteq> []"
    and "castObjectId lib senderId = Some (Is sid)"
    and "castObjectId lib receiverId = Some (Is rid)"
    and "\<exists>u \<in> set (users w). u_id u = sid \<and> available u"
    and "\<exists>u \<in> set (users w). u_id u = rid \<and> available u"
  shows "\<exists>stored su ru.
           sendMessage lib senderId receiverId cont newId elapsed w =
             (Inr stored,
              w\<lparr>messages := messages w @ [stored], clock := newDate elapsed w\<rparr>)
         \<and> stored = \<lparr>m_id = newId, content = trim s, sender = sid, receiver = rid,
                     read = False, createdAt = newDate elapsed w\<rparr>
         \<and> fst (UserModel_findOne lib senderId w) = Inr (Some su)
         \<and> fst (UserModel_findOne lib receiverId w) = Inr (Some ru)
         \<and> sender stored = u_id su \<and> receiver stored = u_id ru"
proof -
  from assms(5) have "\<exists>u \<in> set (users w). holds (Is sid) (u_id u) \<and> available u" by simp
  from find_hit[OF this] obtain su where
    su: "find (\<lambda>u. holds (Is sid) (u_id u) \<and> available u) (users w) = Some su" "u_id su = sid"
    by auto
  from assms(6) have "\<exists>u \<in> set (users w). holds (Is rid) (u_id u) \<and> available u" by simp
  from find_hit[OF this] obtain ru where
    ru: "find (\<lambda>u. holds (Is rid) (u_id u) \<and> available u) (users w) = Some ru" "u_id ru = rid"
    by auto
  have l: "fst (UserModel_findOne lib senderId w) = Inr (Some su)"
    "fst (UserModel_findOne lib receiverId w) = Inr (Some ru)"
    using assms(3,4) su(1) ru(1) by (simp_all add: UserModel_findOne_def cast_condition_def)
  show ?thesis
    unfolding sendMessage_run[OF assms(1,2)] using assms(3,4) su ru l by simp
qed

theorem sendMessage_persists_witness:
  "sendMessage mongoose ana_HEX bea_hex (JString (js '' hey '')) msg3_id 5 world2 =
     (Inr \<lparr>m_id = msg3_id, content = js ''hey'', sender = ana_id, receiver = bea_id,
           read = False, createdAt = 205\<rparr>,
      \<lparr>users = [ana, bea, leo],
       messages = [msg1, msg2,
         \<lparr>m_id = msg3_id, content = js ''hey'', sender = ana_id, receiver = bea_id,
           read = False, createdAt = 205\<rparr>],
       clock = 205\<rparr>)"
proof -
  have c: "trim (js '' hey '') = js ''hey''"
    by (simp add: js_def trim_def isWhiteSpace_def)
  then have n: "trim (js '' hey '') \<noteq> []" by (simp add: js_def)
  have 1: "\<exists>u \<in> set (users world2). u_id u = ana_id \<and> available u"
    by (simp add: users_world2)
  have 2: "\<exists>u \<in> set (users world2). u_id u = bea_id \<and> available u"
    by (simp add: users_world2)
  from sendMessage_persists[OF refl n mongoose_cast_examples(6) mongoose_cast_examples(2) 1 2,
      of msg3_id 5]
  show ?thesis unfolding c by (auto simp: world2_def newDate_def)
qed

text \<open>
  C10. sendMessage does not compare the two identifiers: for an identifier U of an
  available user and a content that passes the check, sendMessage(U, U, content)
  succeeds and stores a message whose sender and receiver are both that user.
\<close>

theorem sendMessage_to_self:
  assumes "cont = JString s" and "trim s \<noteq> []"
    and "u \<in> set (users w)" and "castObjectId lib U = Some (Is (u_id u))" and "available u"
  shows "sendMessage lib U U cont newId elapsed w =
           (Inr \<lparr>m_id = newId, content = trim s, sender = u_id u, receiver = u_id u,
                 read = False, createdAt = newDate elapsed w\<rparr>,
            w\<lparr>messages := messages w @
                 [\<lparr>m_id = newId, content = trim s, sender = u_id u, receiver = u_id u,
                   read = False, createdAt = newDate elapsed w\<rparr>],
              clock := newDate elapsed w\<rparr>)"
proof -
  from assms(3,5) have "\<exists>x \<in> set (users w). holds (Is (u_id u)) (u_id x) \<and> available x"
    by auto
  from find_hit[OF this] obtain su where
    su: "find (\<lambda>x. holds (Is (u_id u)) (u_id x) \<and> available x) (users w) = Some su"
        "u_id su = u_id u"
    by auto
  show ?thesis
    unfolding sendMessage_run[OF assms(1,2)] using assms(4) su by simp
qed

theorem sendMessage_to_self_witness:
  "sendMessage mongoose ana_hex ana_hex (JString (js ''nota'')) msg3_id 0 world0 =
     (Inr \<lparr>m_id = msg3_id, content = js ''nota'', sender = ana_id, receiver = ana_id,
          read = False, createdAt = 50\<rparr>,
      \<lparr>users = [ana, bea, leo],
       messages = [\<lparr>m_id = msg3_id, content = js ''nota'', sender = ana_id,
                    receiver = ana_id, read = False, createdAt = 50\<rparr>],
       clock = 50\<rparr>)"
proof -
  have c: "trim (js ''nota'') = js ''nota''"
    by (simp add: js_def trim_def isWhiteSpace_def)
  then have n: "trim (js ''nota'') \<noteq> []" by (simp add: js_def)
  have 1: "ana \<in> set (users world0)" by (simp add: world0_def)
  have 2: "castObjectId mongoose ana_hex = Some (Is (u_id ana))" "available ana"
    using mongoose_cast_examples(1) by (simp_all add: ana_def)
  from sendMessage_to_self[OF refl n 1 2, of msg3_id 0]
  show ?thesis unfolding c by (simp add: world0_def newDate_def ana_def)
qed

section \<open>updateMessage and deleteMessage\<close>

lemma cast_filter_Is:
  assumes "castObjectId lib v1 = Some c1" and "castObjectId lib v2 = Some c2"
  shows "cast_filter lib model p1 v1 p2 v2 = Inr (c1, c2)"
  using assms by (simp add: cast_filter_def cast_condition_def)

lemma updateMessage_run:
  assumes "isValid lib messageId" and "isValid lib senderId"
    and "newContent = JString s" and "trim s \<noteq> []"
    and "castObjectId lib messageId = Some (Is mid)"
    and "castObjectId lib senderId = Some (Is sid)"
  shows "updateMessage lib messageId newContent senderId elapsed w =
     ((case fst (findOneAndUpdate (\<lambda>m. m_id m = mid \<and> sender m = sid)
                   (\<lambda>m. m\<lparr>content := trim s\<rparr>) (messages w)) of
         None \<Rightarrow> Inl (Error (js ''Mensaje no encontrado o no tienes permiso para editarlo''))
       | Some updatedMessage \<Rightarrow> Inr (populate (users w) updatedMessage)),
      w\<lparr>messages := snd (findOneAndUpdate (\<lambda>m. m_id m = mid \<and> sender m = sid)
                           (\<lambda>m. m\<lparr>content := trim s\<rparr>) (messages w)),
        clock := newDate elapsed w\<rparr>)"
proof -
  have u: "set_content_updatedAt (trim s) (newDate elapsed w) = (\<lambda>m. m\<lparr>content := trim s\<rparr>)"
    by (intro ext) (simp add: set_content_updatedAt_def)
  show ?thesis
    using content_accepted[OF assms(3,4)] assms(1,2)
    unfolding updateMessage_def updateMessage_steps_def
    by (simp add: assms(3) u await_def populated_def MessageModel_findOneAndUpdate_def
          cast_filter_Is[OF assms(5,6)] split: option.split)
qed

lemma deleteMessage_run:
  assumes "isValid lib messageId" and "isValid lib senderId"
    and "castObjectId lib messageId = Some (Is mid)"
    and "castObjectId lib senderId = Some (Is sid)"
  shows "deleteMessage lib messageId senderId w =
     ((case fst (findOneAndDelete (\<lambda>m. m_id m = mid \<and> sender m = sid) (messages w)) of
         None \<Rightarrow> Inl (Error (js ''Mensaje no encontrado o no tienes permiso para eliminarlo''))
       | Some deletedMessage \<Rightarrow> Inr (populate (users w) deletedMessage)),
      w\<lparr>messages := snd (findOneAndDelete (\<lambda>m. m_id m = mid \<and> sender m = sid) (messages w))\<rparr>)"
  using assms(1,2)
  unfolding deleteMessage_def deleteMessage_steps_def
  by (simp add: await_def populated_def MessageModel_findOneAndDelete_def
        cast_filter_Is[OF assms(3,4)] split: option.split)

lemma deleteMessage_no_match:
  assumes "isValid lib messageId" and "isValid lib senderId"
    and "castObjectId lib messageId = Some (Is mid)"
    and "castObjectId lib senderId = Some (Is sid)"
    and "\<forall>m \<in> set (messages w). \<not> (m_id m = mid \<and> sender m = sid)"
  shows "deleteMessage lib messageId senderId w =
           (Inl (Error (js ''Mensaje no encontrado o no tienes permiso para eliminarlo'')),
            w)"
  unfolding deleteMessage_run[OF assms(1-4)] findOneAndDelete_no_match[OF assms(5)]
  by simp

lemma updateMessage_no_match:
  assumes "isValid lib messageId" and "isValid lib senderId"
    and "newContent = JString s" and "trim s \<noteq> []"
    and "castObjectId lib messageId = Some (Is mid)"
    and "castObjectId lib senderId = Some (Is sid)"
    and "\<forall>m \<in> set (messages w). \<not> (m_id m = mid \<and> sender m = sid)"
  shows "updateMessage lib messageId newContent senderId elapsed w =
           (Inl (Error (js ''Mensaje no encontrado o no tienes permiso para editarlo'')),
            w\<lparr>clock := newDate elapsed w\<rparr>)"
  unfolding updateMessage_run[OF assms(1-6)] findOneAndUpdate_no_match[OF assms(7)]
  by simp





lemma messages_world2:
  "messages world2 = [msg1, msg2]" "m_id msg1 = msg1_id" "m_id msg2 = msg2_id"
  "sender msg1 = ana_id" "sender msg2 = bea_id"
  by (simp_all add: world2_def msg1_def msg2_def)


text \<open>
  C6. What updateMessage does when the sender updates a stored message, in a state that
  satisfies the invariant, with well-formed identifiers and a content that passes the
  check: that document, and no other, gets the trimmed new content, and the record
  returned is the document after the update with its references populated. Nothing else
  changes: the Message schema has no \<open>updatedAt\<close> path, so the time of the update is
  neither stored nor returned.
\<close>

theorem updateMessage_by_sender:
  assumes "isValid lib messageId" and "isValid lib senderId"
    and "newContent = JString s" and "trim s \<noteq> []"
    and "castObjectId lib messageId = Some (Is (m_id m))"
    and "castObjectId lib senderId = Some (Is (sender m))"
    and "m \<in> set (messages w)" and "store_ok w"
  shows "updateMessage lib messageId newContent senderId elapsed w =
           (Inr \<lparr>m_id = m_id m, content = trim s,
                 sender = populate_ref (users w) (sender m),
                 receiver = populate_ref (users w) (receiver m),
                 read = read m, createdAt = createdAt m\<rparr>,
            w\<lparr>messages := map (\<lambda>x. if m_id x = m_id m
                                    then \<lparr>m_id = m_id m, content = trim s, sender = sender m,
                                          receiver = receiver m, read = read m,
                                          createdAt = createdAt m\<rparr>
                                    else x) (messages w),
              clock := newDate elapsed w\<rparr>)"
proof -
  let ?p = "\<lambda>x. m_id x = m_id m \<and> sender x = sender m"
  let ?f = "\<lambda>x::stored_message. x\<lparr>content := trim s\<rparr>"
  from assms(7) have "\<exists>d \<in> set (messages w). ?p d" by blast
  from findOneAndUpdate_first_match[OF this, of ?f] obtain pre x post where
    h: "messages w = pre @ x # post" "?p x"
       "findOneAndUpdate ?p ?f (messages w) = (Some (?f x), pre @ ?f x # post)"
    by blast
  from assms(8) have d: "distinct (map m_id (messages w))"
    by (simp add: store_ok_def)
  from h(2) have "m_id x = m_id m" by simp
  from first_match_is_it[OF d assms(7) h(1) this] have x: "x = m" .
  from d h(1) x have "distinct (map m_id (pre @ m # post))" by simp
  from replace_by_id[OF this, of "?f m"] h(1) x
  have r: "map (\<lambda>x. if m_id x = m_id m then ?f m else x) (messages w) = pre @ ?f m # post"
    by simp
  have e: "?f m = \<lparr>m_id = m_id m, content = trim s, sender = sender m,
                   receiver = receiver m, read = read m, createdAt = createdAt m\<rparr>"
    by simp
  show ?thesis
    unfolding updateMessage_run[OF assms(1-6)] h(3) x
    by (simp add: r[unfolded e] populate_def)
qed

lemma populate_ref_world2:
  "populate_ref (users world2) ana_id =
     Some \<lparr>p_id = ana_id, p_name = js ''Ana'', p_email = js ''ana@example.org''\<rparr>"
  "populate_ref (users world2) bea_id =
     Some \<lparr>p_id = bea_id, p_name = js ''Bea'', p_email = js ''bea@example.org''\<rparr>"
  by (simp_all add: populate_ref_def world2_def ana_def bea_def ids_differ)

lemma store_ok_world2: "store_ok world2"
  by (simp add: store_ok_def world2_def msg1_def msg2_def ids_differ)

theorem updateMessage_by_sender_witness:
  "updateMessage mongoose msg1_HEX (JString (js '' hola, Bea  '')) ana_hex 7 world2 =
       (Inr \<lparr>m_id = msg1_id, content = js ''hola, Bea'',
             sender = Some \<lparr>p_id = ana_id, p_name = js ''Ana'', p_email = js ''ana@example.org''\<rparr>,
             receiver = Some \<lparr>p_id = bea_id, p_name = js ''Bea'', p_email = js ''bea@example.org''\<rparr>,
             read = False, createdAt = 100\<rparr>,
        \<lparr>users = [ana, bea, leo],
         messages = [\<lparr>m_id = msg1_id, content = js ''hola, Bea'', sender = ana_id,
                      receiver = bea_id, read = False, createdAt = 100\<rparr>, msg2],
         clock = 207\<rparr>)"
proof -
  have c: "trim (js '' hola, Bea  '') = js ''hola, Bea''"
    by (simp add: js_def trim_def isWhiteSpace_def)
  then have n: "trim (js '' hola, Bea  '') \<noteq> []" by (simp add: js_def)
  have m: "msg1 \<in> set (messages world2)" by (simp add: messages_world2)
  have f: "m_id msg1 = msg1_id" "sender msg1 = ana_id" "receiver msg1 = bea_id"
    "read msg1 = False" "createdAt msg1 = 100"
    by (simp_all add: msg1_def)
  have ci: "castObjectId mongoose msg1_HEX = Some (Is (m_id msg1))"
    "castObjectId mongoose ana_hex = Some (Is (sender msg1))"
    using mongoose_cast_examples by (simp_all add: f)
  have nd: "newDate 7 world2 = 207" by (simp add: newDate_def world2_def)
  from updateMessage_by_sender[OF mongoose_isValid_examples(7) mongoose_isValid_examples(1)
      refl n ci m store_ok_world2, of 7]
  show ?thesis
    unfolding c nd f populate_ref_world2
    by (simp add: world2_def msg1_def msg2_def ids_differ)
qed

text \<open>
  C7. In a state that satisfies the invariant, deleting a stored message m as its sender
  (both identifiers well-formed) succeeds, removes m from the collection and returns m
  with its references populated; the same call on the resulting state fails with
  "Mensaje no encontrado o no tienes permiso para eliminarlo" and leaves both
  collections as they are.
\<close>

theorem deleteMessage_twice:
  assumes "m \<in> set (messages w)"
    and "castObjectId lib messageId = Some (Is (m_id m))"
    and "castObjectId lib senderId = Some (Is (sender m))"
    and "isValid lib messageId" and "isValid lib senderId" and "store_ok w"
  shows "\<exists>w1. w1 = w\<lparr>messages := remove1 m (messages w)\<rparr>
         \<and> deleteMessage lib messageId senderId w = (Inr (populate (users w) m), w1)
         \<and> m \<notin> set (messages w1)
         \<and> deleteMessage lib messageId senderId w1 =
             (Inl (Error (js ''Mensaje no encontrado o no tienes permiso para eliminarlo'')),
              w1)"
proof -
  let ?w1 = "w\<lparr>messages := remove1 m (messages w)\<rparr>"
  from assms(6) have d: "distinct (map m_id (messages w))"
    by (simp add: store_ok_def)
  then have d': "distinct (messages w)" by (simp add: distinct_map)
  from findOneAndDelete_by_id[OF d assms(1), of "\<lambda>d. sender d = sender m"]
  have f: "findOneAndDelete (\<lambda>d. m_id d = m_id m \<and> sender d = sender m) (messages w) =
             (Some m, remove1 m (messages w))"
    by simp
  have first: "deleteMessage lib messageId senderId w = (Inr (populate (users w) m), ?w1)"
    unfolding deleteMessage_run[OF assms(4,5,2,3)] f by simp
  from remove1_by_id[OF d assms(1)]
  have "\<forall>x \<in> set (messages ?w1). \<not> (m_id x = m_id m \<and> sender x = sender m)"
    by simp
  from deleteMessage_no_match[OF assms(4,5,2,3) this]
  have second: "deleteMessage lib messageId senderId ?w1 =
      (Inl (Error (js ''Mensaje no encontrado o no tienes permiso para eliminarlo'')),
       ?w1)" .
  from d' have gone: "m \<notin> set (messages ?w1)" by simp
  from first second gone show ?thesis by blast
qed

theorem deleteMessage_twice_witness:
  "deleteMessage mongoose msg1_hex ana_hex world2 =
     (Inr \<lparr>m_id = msg1_id, content = js ''hola'',
           sender = Some \<lparr>p_id = ana_id, p_name = js ''Ana'', p_email = js ''ana@example.org''\<rparr>,
           receiver = Some \<lparr>p_id = bea_id, p_name = js ''Bea'', p_email = js ''bea@example.org''\<rparr>,
           read = False, createdAt = 100\<rparr>,
      \<lparr>users = [ana, bea, leo], messages = [msg2], clock = 200\<rparr>)
   \<and> deleteMessage mongoose msg1_hex ana_hex
       \<lparr>users = [ana, bea, leo], messages = [msg2], clock = 200\<rparr> =
     (Inl (Error (js ''Mensaje no encontrado o no tienes permiso para eliminarlo'')),
      \<lparr>users = [ana, bea, leo], messages = [msg2], clock = 200\<rparr>)"
proof -
  have m: "msg1 \<in> set (messages world2)" by (simp add: messages_world2)
  have ci: "castObjectId mongoose msg1_hex = Some (Is (m_id msg1))"
    "castObjectId mongoose ana_hex = Some (Is (sender msg1))"
    using mongoose_cast_examples by (simp_all add: messages_world2)
  have p: "populate (users world2) msg1 =
      \<lparr>m_id = msg1_id, content = js ''hola'',
           sender = Some \<lparr>p_id = ana_id, p_name = js ''Ana'', p_email = js ''ana@example.org''\<rparr>,
           receiver = Some \<lparr>p_id = bea_id, p_name = js ''Bea'', p_email = js ''bea@example.org''\<rparr>,
           read = False, createdAt = 100\<rparr>"
    by (simp add: populate_def populate_ref_world2 msg1_def)
  have r: "world2\<lparr>messages := remove1 msg1 (messages world2)\<rparr> =
      \<lparr>users = [ana, bea, leo], messages = [msg2], clock = 200\<rparr>"
    by (simp add: world2_def)
  from deleteMessage_twice[OF m ci mongoose_isValid_examples(4) mongoose_isValid_examples(1)
      store_ok_world2]
  show ?thesis unfolding p r by simp
qed

section \<open>The invariant is kept\<close>

lemma store_ok_empty: "messages w = [] \<Longrightarrow> store_ok w"
  by (simp add: store_ok_def)

lemma store_ok_sendMessage:
  assumes "store_ok w" and "newId \<notin> m_id ` set (messages w)"
  shows "store_ok (snd (sendMessage lib senderId receiverId cont newId elapsed w))"
  using assms unfolding sendMessage_def sendMessage_steps_def store_ok_def
  by (auto simp: await_def UserModel_findOne_def MessageModel_save_def newDate_def list_all_iff
        split: option.splits sum.splits)

lemma store_ok_updateMessage:
  assumes "store_ok w"
  shows "store_ok (snd (updateMessage lib messageId newContent senderId elapsed w))"
proof -
  have k: "store_ok (w\<lparr>clock := newDate elapsed w,
              messages := snd (findOneAndUpdate p (set_content_updatedAt c t) (messages w))\<rparr>)"
    for p c t
  proof -
    let ?ms = "snd (findOneAndUpdate p (set_content_updatedAt c t) (messages w))"
    have i: "map m_id ?ms = map m_id (messages w)"
      by (rule findOneAndUpdate_keeps) (simp add: set_content_updatedAt_def)
    have c: "map createdAt ?ms = map createdAt (messages w)"
      by (rule findOneAndUpdate_keeps) (simp add: set_content_updatedAt_def)
    from assms have "\<forall>t \<in> set (map createdAt (messages w)). t \<le> clock w"
      by (simp add: store_ok_def list_all_iff)
    then have "\<forall>t \<in> set (map createdAt ?ms). t \<le> newDate elapsed w"
      unfolding c by (auto simp: newDate_def)
    then have t: "list_all (\<lambda>m. createdAt m \<le> newDate elapsed w) ?ms"
      by (simp add: list_all_iff)
    from assms have d: "distinct (map m_id ?ms)"
      unfolding i by (simp add: store_ok_def)
    from d t show ?thesis by (simp add: store_ok_def)
  qed
  have l: "store_ok (w\<lparr>clock := newDate elapsed w\<rparr>)"
    using assms by (auto simp: store_ok_def newDate_def list_all_iff)
  from assms k l show ?thesis
    unfolding updateMessage_def updateMessage_steps_def
    by (simp add: await_def populated_def MessageModel_findOneAndUpdate_def
          split: option.split sum.split prod.split)
qed

lemma store_ok_deleteMessage:
  assumes "store_ok w"
  shows "store_ok (snd (deleteMessage lib messageId senderId w))"
proof -
  have k: "store_ok (w\<lparr>messages := snd (findOneAndDelete p (messages w))\<rparr>)"
    for p
    using findOneAndDelete_cases[of p "messages w"] assms
    by (auto simp: store_ok_def)
  from assms k show ?thesis
    unfolding deleteMessage_def deleteMessage_steps_def
    by (simp add: await_def populated_def MessageModel_findOneAndDelete_def
          split: option.split sum.split prod.split)
qed

section \<open>The read path\<close>

lemma getMessagesBetweenUsers_run:
  assumes "castObjectId lib A = Some (Is a)" and "castObjectId lib B = Some (Is b)"
  shows "getMessagesBetweenUsers lib A B w =
     (Inr (map (populate (users w))
            (sort_createdAt_desc
              (filter (\<lambda>m. (sender m = a \<and> receiver m = b) \<or> (sender m = b \<and> receiver m = a))
                 (messages w)))),
      w)"
  unfolding getMessagesBetweenUsers_def getMessagesBetweenUsers_steps_def
  by (simp add: await_def sorted_populated_def MessageModel_find_def find_docs_def
        cast_filter_Is[OF assms] cast_filter_Is[OF assms(2,1)])

text \<open>
  C2. For two user identifiers A and B (values the library casts to identifiers)
  getMessagesBetweenUsers(A, B) does not fail. It returns exactly the stored messages
  whose sender and receiver are A and B in either direction (each as often as it is
  stored), most recent \<open>createdAt\<close> first, each with its own fields and with the sender and
  the receiver replaced by the identifier, name and email of the user with that
  identifier; getMessagesBetweenUsers(B, A) returns the same; and the result is the empty
  sequence when the pair has no message. The collections are left as they were.
\<close>

theorem getMessagesBetweenUsers_pair:
  assumes "castObjectId lib A = Some (Is a)" and "castObjectId lib B = Some (Is b)"
  shows "\<exists>ms. getMessagesBetweenUsers lib A B w =
             (Inr (map (\<lambda>m. \<lparr>m_id = m_id m, content = content m,
                             sender = map_option
                               (\<lambda>u. \<lparr>p_id = u_id u, p_name = name u, p_email = email u\<rparr>)
                               (find (\<lambda>u. u_id u = sender m) (users w)),
                             receiver = map_option
                               (\<lambda>u. \<lparr>p_id = u_id u, p_name = name u, p_email = email u\<rparr>)
                               (find (\<lambda>u. u_id u = receiver m) (users w)),
                             read = read m, createdAt = createdAt m\<rparr>) ms),
              w)
      \<and> mset ms = filter_mset (\<lambda>m. (sender m = a \<and> receiver m = b)
                                   \<or> (sender m = b \<and> receiver m = a)) (mset (messages w))
      \<and> set ms = {m \<in> set (messages w). (sender m = a \<and> receiver m = b)
                                        \<or> (sender m = b \<and> receiver m = a)}
      \<and> sorted_wrt (\<lambda>x y. createdAt y \<le> createdAt x) ms
      \<and> fst (getMessagesBetweenUsers lib B A w) = fst (getMessagesBetweenUsers lib A B w)
      \<and> ((\<forall>m \<in> set (messages w). \<not> ((sender m = a \<and> receiver m = b)
                                       \<or> (sender m = b \<and> receiver m = a)))
           \<longrightarrow> fst (getMessagesBetweenUsers lib A B w) = Inr [])"
proof -
  let ?P = "\<lambda>m::stored_message. (sender m = a \<and> receiver m = b) \<or> (sender m = b \<and> receiver m = a)"
  let ?Q = "\<lambda>m::stored_message. (sender m = b \<and> receiver m = a) \<or> (sender m = a \<and> receiver m = b)"
  let ?ms = "sort_createdAt_desc (filter ?P (messages w))"
  have pop: "populate (users w) =
     (\<lambda>m. \<lparr>m_id = m_id m, content = content m,
            sender = map_option (\<lambda>u. \<lparr>p_id = u_id u, p_name = name u, p_email = email u\<rparr>)
                       (find (\<lambda>u. u_id u = sender m) (users w)),
            receiver = map_option (\<lambda>u. \<lparr>p_id = u_id u, p_name = name u, p_email = email u\<rparr>)
                         (find (\<lambda>u. u_id u = receiver m) (users w)),
            read = read m, createdAt = createdAt m\<rparr>)"
    by (intro ext) (simp add: populate_def populate_ref_def)
  have run: "getMessagesBetweenUsers lib A B w =
      (Inr (map (populate (users w)) ?ms), w)"
    by (rule getMessagesBetweenUsers_run[OF assms])
  have m: "mset ?ms = filter_mset ?P (mset (messages w))"
    by (simp add: sort_createdAt_desc_mset)
  have "set ?ms = set_mset (mset ?ms)" by simp
  also have "\<dots> = {m \<in> set (messages w). ?P m}" unfolding m by simp
  finally have s: "set ?ms = {m \<in> set (messages w). ?P m}" .
  have o: "sorted_wrt (\<lambda>x y. createdAt y \<le> createdAt x) ?ms"
    by (rule sort_createdAt_desc_sorted)
  have "?Q = ?P" by (intro ext) blast
  then have sym: "fst (getMessagesBetweenUsers lib B A w) = fst (getMessagesBetweenUsers lib A B w)"
    unfolding getMessagesBetweenUsers_run[OF assms] getMessagesBetweenUsers_run[OF assms(2,1)]
    by simp
  have e: "(\<forall>m \<in> set (messages w). \<not> ?P m) \<longrightarrow> fst (getMessagesBetweenUsers lib A B w) = Inr []"
  proof
    assume "\<forall>m \<in> set (messages w). \<not> ?P m"
    then have "filter ?P (messages w) = []"
      by (simp add: filter_empty_conv)
    then show "fst (getMessagesBetweenUsers lib A B w) = Inr []"
      unfolding run by (simp add: sort_createdAt_desc_def)
  qed
  from run[unfolded pop] m s o sym e show ?thesis by blast
qed

theorem getMessagesBetweenUsers_pair_witness:
  "getMessagesBetweenUsers mongoose ana_hex bea_hex world2 =
     (Inr [\<lparr>m_id = msg2_id, content = js ''que tal'',
            sender = Some \<lparr>p_id = bea_id, p_name = js ''Bea'', p_email = js ''bea@example.org''\<rparr>,
            receiver = Some \<lparr>p_id = ana_id, p_name = js ''Ana'', p_email = js ''ana@example.org''\<rparr>,
            read = False, createdAt = 200\<rparr>,
           \<lparr>m_id = msg1_id, content = js ''hola'',
            sender = Some \<lparr>p_id = ana_id, p_name = js ''Ana'', p_email = js ''ana@example.org''\<rparr>,
            receiver = Some \<lparr>p_id = bea_id, p_name = js ''Bea'', p_email = js ''bea@example.org''\<rparr>,
            read = False, createdAt = 100\<rparr>],
      world2)
   \<and> fst (getMessagesBetweenUsers mongoose bea_hex ana_HEX world2) =
     Inr [\<lparr>m_id = msg2_id, content = js ''que tal'',
            sender = Some \<lparr>p_id = bea_id, p_name = js ''Bea'', p_email = js ''bea@example.org''\<rparr>,
            receiver = Some \<lparr>p_id = ana_id, p_name = js ''Ana'', p_email = js ''ana@example.org''\<rparr>,
            read = False, createdAt = 200\<rparr>,
           \<lparr>m_id = msg1_id, content = js ''hola'',
            sender = Some \<lparr>p_id = ana_id, p_name = js ''Ana'', p_email = js ''ana@example.org''\<rparr>,
            receiver = Some \<lparr>p_id = bea_id, p_name = js ''Bea'', p_email = js ''bea@example.org''\<rparr>,
            read = False, createdAt = 100\<rparr>]
   \<and> fst (getMessagesBetweenUsers mongoose ana_hex leo_hex world2) = Inr []"
proof -
  note c = mongoose_cast_examples
  have none: "\<forall>m \<in> set (messages world2). \<not> ((sender m = ana_id \<and> receiver m = leo_id)
                                       \<or> (sender m = leo_id \<and> receiver m = ana_id))"
    by (simp add: world2_def msg1_def msg2_def ids_differ)
  have p: "populate (users world2) msg1 =
      \<lparr>m_id = msg1_id, content = js ''hola'',
           sender = Some \<lparr>p_id = ana_id, p_name = js ''Ana'', p_email = js ''ana@example.org''\<rparr>,
           receiver = Some \<lparr>p_id = bea_id, p_name = js ''Bea'', p_email = js ''bea@example.org''\<rparr>,
           read = False, createdAt = 100\<rparr>"
    "populate (users world2) msg2 =
      \<lparr>m_id = msg2_id, content = js ''que tal'',
            sender = Some \<lparr>p_id = bea_id, p_name = js ''Bea'', p_email = js ''bea@example.org''\<rparr>,
            receiver = Some \<lparr>p_id = ana_id, p_name = js ''Ana'', p_email = js ''ana@example.org''\<rparr>,
            read = False, createdAt = 200\<rparr>"
    by (simp_all add: populate_def populate_ref_world2 msg1_def msg2_def)
  have s: "sort_createdAt_desc
             (filter (\<lambda>m. (sender m = ana_id \<and> receiver m = bea_id)
                        \<or> (sender m = bea_id \<and> receiver m = ana_id)) (messages world2)) =
           [msg2, msg1]"
    by (simp add: sort_createdAt_desc_def world2_def msg1_def msg2_def ids_differ)
  have a: "getMessagesBetweenUsers mongoose ana_hex bea_hex world2 =
     (Inr [populate (users world2) msg2, populate (users world2) msg1],
      world2)"
    unfolding getMessagesBetweenUsers_run[OF c(1) c(2)] s
    by (simp add: world2_def)
  from getMessagesBetweenUsers_pair[OF c(6) c(2), of world2]
  have b: "fst (getMessagesBetweenUsers mongoose bea_hex ana_HEX world2) =
           fst (getMessagesBetweenUsers mongoose ana_HEX bea_hex world2)"
    by blast
  have b': "fst (getMessagesBetweenUsers mongoose ana_HEX bea_hex world2) =
           Inr [populate (users world2) msg2, populate (users world2) msg1]"
    unfolding getMessagesBetweenUsers_run[OF c(6) c(2)] s by simp
  from getMessagesBetweenUsers_pair[OF c(1) c(3), of world2] none
  have n: "fst (getMessagesBetweenUsers mongoose ana_hex leo_hex world2) = Inr []"
    by blast
  from a b b' n show ?thesis unfolding p by simp
qed

section \<open>Status codes of update and delete\<close>

lemma cast_filter_valid:
  assumes "\<And>v. isValid lib v \<Longrightarrow> castObjectId lib v \<noteq> None"
    and "isValid lib v1" and "isValid lib v2"
  shows "\<exists>c1 c2. cast_filter lib model p1 v1 p2 v2 = Inr (c1, c2)"
proof -
  from assms(1)[OF assms(2)] obtain c1 where c1: "castObjectId lib v1 = Some c1" by auto
  from assms(1)[OF assms(3)] obtain c2 where c2: "castObjectId lib v2 = Some c2" by auto
  from cast_filter_Is[OF c1 c2] show ?thesis by blast
qed

lemma updateMessage_outcomes:
  assumes "\<And>v. isValid lib v \<Longrightarrow> castObjectId lib v \<noteq> None"
  shows "(\<exists>r. fst (updateMessage lib messageId cont senderId elapsed w) = Inr r)
   \<or> fst (updateMessage lib messageId cont senderId elapsed w) =
       Inl (Error (js (''ID de mensaje inv'' @ [CHR 0xE1] @ ''lido'')))
   \<or> fst (updateMessage lib messageId cont senderId elapsed w) =
       Inl (Error (js ''El contenido del mensaje es requerido''))
   \<or> fst (updateMessage lib messageId cont senderId elapsed w) =
       Inl (Error (js (''ID de remitente inv'' @ [CHR 0xE1] @ ''lido'')))
   \<or> fst (updateMessage lib messageId cont senderId elapsed w) =
       Inl (Error (js ''Mensaje no encontrado o no tienes permiso para editarlo''))"
proof (cases "isValid lib messageId \<and> isValid lib senderId")
  case True
  from cast_filter_valid[OF assms, of messageId senderId "''Message''" "''_id''" "''sender''"] True
  obtain c1 c2 where
    "cast_filter lib ''Message'' ''_id'' messageId ''sender'' senderId = Inr (c1, c2)"
    by blast
  then show ?thesis
    unfolding updateMessage_def updateMessage_steps_def
    by (simp add: await_def populated_def MessageModel_findOneAndUpdate_def split: option.split)
next
  case False
  then show ?thesis
    unfolding updateMessage_def updateMessage_steps_def by auto
qed

lemma deleteMessage_outcomes:
  assumes "\<And>v. isValid lib v \<Longrightarrow> castObjectId lib v \<noteq> None"
  shows "(\<exists>r. fst (deleteMessage lib messageId senderId w) = Inr r)
   \<or> fst (deleteMessage lib messageId senderId w) =
       Inl (Error (js (''ID de mensaje inv'' @ [CHR 0xE1] @ ''lido'')))
   \<or> fst (deleteMessage lib messageId senderId w) =
       Inl (Error (js (''ID de remitente inv'' @ [CHR 0xE1] @ ''lido'')))
   \<or> fst (deleteMessage lib messageId senderId w) =
       Inl (Error (js ''Mensaje no encontrado o no tienes permiso para eliminarlo''))"
proof (cases "isValid lib messageId \<and> isValid lib senderId")
  case True
  from cast_filter_valid[OF assms, of messageId senderId "''Message''" "''_id''" "''sender''"] True
  obtain c1 c2 where
    "cast_filter lib ''Message'' ''_id'' messageId ''sender'' senderId = Inr (c1, c2)"
    by blast
  then show ?thesis
    unfolding deleteMessage_def deleteMessage_steps_def
    by (simp add: await_def populated_def MessageModel_findOneAndDelete_def split: option.split)
next
  case False
  then show ?thesis
    unfolding deleteMessage_def deleteMessage_steps_def by auto
qed

lemma updateMessage_catch_service_errors:
  "status (updateMessage_catch
     (Error (js (''ID de mensaje inv'' @ [CHR 0xE1] @ ''lido''))) :: 'a response) = 400"
  "status (updateMessage_catch
     (Error (js ''El contenido del mensaje es requerido'')) :: 'a response) = 500"
  "status (updateMessage_catch
     (Error (js (''ID de remitente inv'' @ [CHR 0xE1] @ ''lido''))) :: 'a response) = 400"
  "status (updateMessage_catch
     (Error (js ''Mensaje no encontrado o no tienes permiso para editarlo'')) :: 'a response) = 403"
  by (simp_all add: js_def)

lemma deleteMessage_catch_service_errors:
  "status (deleteMessage_catch
     (Error (js (''ID de mensaje inv'' @ [CHR 0xE1] @ ''lido''))) :: 'a response) = 400"
  "status (deleteMessage_catch
     (Error (js (''ID de remitente inv'' @ [CHR 0xE1] @ ''lido''))) :: 'a response) = 400"
  "status (deleteMessage_catch
     (Error (js ''Mensaje no encontrado o no tienes permiso para eliminarlo'')) :: 'a response) = 403"
  by (simp_all add: js_def)

lemma updateMessage_handler_status:
  "status (fst (updateMessage_handler lib params cont senderId elapsed w)) =
     (if \<not> truthy cont \<or> \<not> truthy senderId then 400
      else case fst (updateMessage lib (param params ''messageId'') cont senderId elapsed w) of
             Inr r \<Rightarrow> 200
           | Inl err \<Rightarrow> status (updateMessage_catch err :: populated_message response))"
  unfolding updateMessage_handler_def
  by (simp split: prod.split sum.split)

lemma deleteMessage_handler_status:
  "status (fst (deleteMessage_handler lib params senderId w)) =
     (if \<not> truthy senderId then 400
      else case fst (deleteMessage lib (param params ''messageId'') senderId w) of
             Inr r \<Rightarrow> 200
           | Inl err \<Rightarrow> status (deleteMessage_catch err :: populated_message response))"
  unfolding deleteMessage_handler_def
  by (simp split: prod.split sum.split)

text \<open>A content that is not empty but blank passes the handler's own check and is refused
  by the service; the handler answers 500.\<close>

lemma param_route_message: "param (route_message m) ''messageId'' = JString m"
  by (simp add: param_def route_message_def)

lemma updateMessage_handler_blank_content:
  "status (fst (updateMessage_handler mongoose (route_message (js ''64c000000000000000000001''))
                  (JString (js ''  '')) ana_hex 7 world2)) = 500"
proof -
  have v: "isValid mongoose (JString (js ''64c000000000000000000001''))"
    using mongoose_isValid_examples(4) by (simp add: msg1_hex_def)
  have t: "trim (js ''  '') = []" by (simp add: js_def trim_def isWhiteSpace_def)
  have e: "truthy (JString (js ''  ''))" "truthy ana_hex" by (simp_all add: js_def ana_hex_def)
  have "fst (updateMessage mongoose (JString (js ''64c000000000000000000001''))
               (JString (js ''  '')) ana_hex 7 world2) =
          Inl (Error (js ''El contenido del mensaje es requerido''))"
    unfolding updateMessage_def updateMessage_steps_def using v t by simp
  then show ?thesis
    unfolding updateMessage_handler_status param_route_message using e
    by (simp add: updateMessage_catch_service_errors del: updateMessage_catch.simps)
qed

text \<open>
  C8. The statuses of the update and delete handlers, for a library whose cast accepts
  what \<open>isValid\<close> accepts. Every error the service raises for a missing match says both
  "no encontrado" and "no tienes permiso", and the handlers test "no tienes permiso"
  first: whatever the request and the state, the status is 200, 400, 403 or 500 and never
  404, and a well-formed request for a message that does not exist, or that another
  sender owns, is answered 403.
\<close>

theorem update_delete_handlers_never_404:
  assumes "\<And>v. isValid lib v \<Longrightarrow> castObjectId lib v \<noteq> None"
  shows "status (fst (updateMessage_handler lib params cont senderId elapsed w))
     \<in> {200, 400, 403, 500}
   \<and> status (fst (deleteMessage_handler lib params senderId' w)) \<in> {200, 400, 403, 500}
   \<and> (isValid lib (param params' ''messageId'') \<and> isValid lib sv
       \<and> castObjectId lib (param params' ''messageId'') = Some (Is mid)
       \<and> castObjectId lib sv = Some (Is sid)
       \<and> cont = JString s \<and> trim s \<noteq> [] \<and> truthy sv
       \<and> (\<forall>m \<in> set (messages w). \<not> (m_id m = mid \<and> sender m = sid))
      \<longrightarrow> status (fst (updateMessage_handler lib params' cont sv elapsed w)) = 403
        \<and> status (fst (deleteMessage_handler lib params' sv w)) = 403)"
proof -
  have u: "status (fst (updateMessage_handler lib params cont senderId elapsed w))
     \<in> {200, 400, 403, 500}"
    using updateMessage_outcomes[OF assms, of "param params ''messageId''" cont senderId elapsed w]
    unfolding updateMessage_handler_status
    by (auto simp: updateMessage_catch_service_errors
          simp del: updateMessage_catch.simps append.simps)
  have d: "status (fst (deleteMessage_handler lib params senderId' w)) \<in> {200, 400, 403, 500}"
    using deleteMessage_outcomes[OF assms, of "param params ''messageId''" senderId' w]
    unfolding deleteMessage_handler_status
    by (auto simp: deleteMessage_catch_service_errors
          simp del: deleteMessage_catch.simps append.simps)
  have n: "status (fst (updateMessage_handler lib params' cont sv elapsed w)) = 403
        \<and> status (fst (deleteMessage_handler lib params' sv w)) = 403"
    if h: "isValid lib (param params' ''messageId'')" "isValid lib sv"
      "castObjectId lib (param params' ''messageId'') = Some (Is mid)"
      "castObjectId lib sv = Some (Is sid)"
      "cont = JString s" "trim s \<noteq> []" "truthy sv"
      "\<forall>m \<in> set (messages w). \<not> (m_id m = mid \<and> sender m = sid)"
  proof -
    from trim_nonempty[OF h(6)] h(5) have t: "truthy cont" by simp
    from t h(7) show ?thesis
      unfolding updateMessage_handler_status deleteMessage_handler_status
      by (simp add: updateMessage_no_match[OF h(1,2,5,6,3,4,8)]
            deleteMessage_no_match[OF h(1,2,3,4,8)]
            updateMessage_catch_service_errors deleteMessage_catch_service_errors
          del: updateMessage_catch.simps deleteMessage_catch.simps append.simps)
  qed
  from u d n show ?thesis by blast
qed

theorem update_delete_handlers_never_404_witness:
  "status (fst (updateMessage_handler mongoose (route_message (js ''64c000000000000000000003''))
                  (JString (js ''hey'')) ana_hex 7 world2)) = 403
   \<and> status (fst (deleteMessage_handler mongoose (route_message (js ''64c000000000000000000003''))
                  ana_hex world2)) = 403
   \<and> status (fst (updateMessage_handler mongoose (route_message (js ''64c000000000000000000001''))
                  (JString (js ''hey'')) bea_hex 7 world2)) = 403
   \<and> status (fst (deleteMessage_handler mongoose (route_message (js ''64c000000000000000000001''))
                  bea_hex world2)) = 403"
proof -
  have ok: "\<And>v. isValid mongoose v \<Longrightarrow> castObjectId mongoose v \<noteq> None"
    using mongoose_valid_casts by fastforce
  have p: "param (route_message (js ''64c000000000000000000003'')) ''messageId'' = msg3_hex"
    "param (route_message (js ''64c000000000000000000001'')) ''messageId'' = msg1_hex"
    by (simp_all add: param_route_message msg3_hex_def msg1_hex_def)
  have e: "truthy ana_hex" "truthy bea_hex" by (simp_all add: ana_hex_def bea_hex_def js_def)
  have a: "\<forall>m \<in> set (messages world2). \<not> (m_id m = msg1_id \<and> sender m = bea_id)"
    by (simp add: messages_world2 ids_differ)
  have b: "\<forall>m \<in> set (messages world2). \<not> (m_id m = msg3_id \<and> sender m = ana_id)"
    by (simp add: messages_world2 ids_differ)
  note v = mongoose_isValid_examples and c = mongoose_cast_examples
  from update_delete_handlers_never_404[OF ok,
         where params' = "route_message (js ''64c000000000000000000003'')" and sv = ana_hex
           and mid = msg3_id and sid = ana_id and cont = "JString (js ''hey'')"
           and s = "js ''hey''" and w = world2 and elapsed = 7]
       v c e b hey_trim(2)
  have 1: "status (fst (updateMessage_handler mongoose (route_message (js ''64c000000000000000000003''))
                  (JString (js ''hey'')) ana_hex 7 world2)) = 403
   \<and> status (fst (deleteMessage_handler mongoose (route_message (js ''64c000000000000000000003''))
                  ana_hex world2)) = 403"
    unfolding p by blast
  from update_delete_handlers_never_404[OF ok,
         where params' = "route_message (js ''64c000000000000000000001'')" and sv = bea_hex
           and mid = msg1_id and sid = bea_id and cont = "JString (js ''hey'')"
           and s = "js ''hey''" and w = world2 and elapsed = 7]
       v c e a hey_trim(2)
  have 2: "status (fst (updateMessage_handler mongoose (route_message (js ''64c000000000000000000001''))
                  (JString (js ''hey'')) bea_hex 7 world2)) = 403
   \<and> status (fst (deleteMessage_handler mongoose (route_message (js ''64c000000000000000000001''))
                  bea_hex world2)) = 403"
    unfolding p by blast
  from 1 2 show ?thesis by blast
qed

section \<open>Status codes of the read path\<close>

lemma getMessagesBetweenUsers_cases:
  "snd (getMessagesBetweenUsers lib u1 u2 w) = w"
  "castObjectId lib u1 = None \<Longrightarrow>
     fst (getMessagesBetweenUsers lib u1 u2 w) =
       Inl (Error (castErrorMessage lib ''Message'' ''sender'' u1))"
  "castObjectId lib u1 \<noteq> None \<Longrightarrow> castObjectId lib u2 = None \<Longrightarrow>
     fst (getMessagesBetweenUsers lib u1 u2 w) =
       Inl (Error (castErrorMessage lib ''Message'' ''receiver'' u2))"
  "castObjectId lib u1 \<noteq> None \<Longrightarrow> castObjectId lib u2 \<noteq> None \<Longrightarrow>
     \<exists>msgs. fst (getMessagesBetweenUsers lib u1 u2 w) = Inr msgs"
  unfolding getMessagesBetweenUsers_def getMessagesBetweenUsers_steps_def
  by (auto simp: await_def sorted_populated_def MessageModel_find_def cast_filter_def
        cast_condition_def split: option.split sum.split prod.split)

lemma getMessagesBetweenUsers_handler_status:
  "status (fst (getMessagesBetweenUsers_handler lib params w)) =
     (case fst (getMessagesBetweenUsers lib (param params ''userId1'')
                  (param params ''userId2'') w) of
        Inr msgs \<Rightarrow> if msgs = [] then 404 else 200
      | Inl (Error t) \<Rightarrow> if js_includes t (js (''inv'' @ [CHR 0xE1] @ ''lido'')) then 400 else 500
      | Inl NonError \<Rightarrow> 500)"
  unfolding getMessagesBetweenUsers_handler_def
  by (simp split: prod.split sum.split thrown.split)

lemma getMessagesBetweenUsers_handler_response:
  "fst (getMessagesBetweenUsers_handler lib params w) =
     (case fst (getMessagesBetweenUsers lib (param params ''userId1'')
                  (param params ''userId2'') w) of
        Inr msgs \<Rightarrow>
          (if length msgs = 0
           then \<lparr>status = 404,
                 body = MessageBody (js ''No se encontraron mensajes entre estos usuarios'')\<rparr>
           else \<lparr>status = 200, body = Data msgs\<rparr>)
      | Inl err \<Rightarrow> getMessagesBetweenUsers_catch err)"
  unfolding getMessagesBetweenUsers_handler_def
  by (simp split: prod.split sum.split)

lemma param_route_pair:
  "param (route_pair a b) ''userId1'' = JUndefined"
  "param (route_pair a b) ''userId2'' = JUndefined"
  by (simp_all add: param_def route_pair_def)

text \<open>
  C9. getMessagesBetweenUsers checks neither identifier: whatever the two values, it goes
  straight to the pair query, which leaves both collections as they are, and raises no
  error of its own; it fails exactly when
  the library cannot cast one of them, with the library's CastError for the first such
  value. The handler answers 200 or 404 when the query succeeds; a CastError it answers
  with 500, unless the text of the CastError contains the word for "invalid" (\<open>inv\<close>, the
  a-acute, \<open>lido\<close>), and then with 400: the 400 branch is reached by such a CastError
  only. Under the route \<open>"/:senderId/:recieverId"\<close> the handler reads both identifiers as
  \<open>undefined\<close>.
\<close>

theorem getMessagesBetweenUsers_no_validation:
  "snd (getMessagesBetweenUsers lib u1 u2 w) = w
   \<and> (castObjectId lib u1 = None \<longrightarrow>
        fst (getMessagesBetweenUsers lib u1 u2 w) =
          Inl (Error (castErrorMessage lib ''Message'' ''sender'' u1)))
   \<and> (castObjectId lib u1 \<noteq> None \<and> castObjectId lib u2 = None \<longrightarrow>
        fst (getMessagesBetweenUsers lib u1 u2 w) =
          Inl (Error (castErrorMessage lib ''Message'' ''receiver'' u2)))
   \<and> (castObjectId lib u1 \<noteq> None \<and> castObjectId lib u2 \<noteq> None \<longrightarrow>
        (\<exists>msgs. fst (getMessagesBetweenUsers lib u1 u2 w) = Inr msgs))
   \<and> status (fst (getMessagesBetweenUsers_handler lib params w)) =
       (case fst (getMessagesBetweenUsers lib (param params ''userId1'')
                    (param params ''userId2'') w) of
          Inr msgs \<Rightarrow> if msgs = [] then 404 else 200
        | Inl (Error t) \<Rightarrow>
            if js_includes t (js (''inv'' @ [CHR 0xE1] @ ''lido'')) then 400 else 500
        | Inl NonError \<Rightarrow> 500)
   \<and> (status (fst (getMessagesBetweenUsers_handler lib params w)) = 400 \<longrightarrow>
        (\<exists>t. fst (getMessagesBetweenUsers lib (param params ''userId1'')
                    (param params ''userId2'') w) = Inl (Error t)
            \<and> js_includes t (js (''inv'' @ [CHR 0xE1] @ ''lido''))
            \<and> (castObjectId lib (param params ''userId1'') = None
                 \<and> t = castErrorMessage lib ''Message'' ''sender'' (param params ''userId1'')
               \<or> castObjectId lib (param params ''userId2'') = None
                 \<and> t = castErrorMessage lib ''Message'' ''receiver'' (param params ''userId2''))))
   \<and> param (route_pair a b) ''userId1'' = JUndefined
   \<and> param (route_pair a b) ''userId2'' = JUndefined"
proof -
  let ?p1 = "param params ''userId1''" and ?p2 = "param params ''userId2''"
  let ?r = "fst (getMessagesBetweenUsers lib ?p1 ?p2 w)"
  have f: "\<exists>t. ?r = Inl (Error t)
            \<and> js_includes t (js (''inv'' @ [CHR 0xE1] @ ''lido''))
            \<and> (castObjectId lib ?p1 = None \<and> t = castErrorMessage lib ''Message'' ''sender'' ?p1
               \<or> castObjectId lib ?p2 = None
                 \<and> t = castErrorMessage lib ''Message'' ''receiver'' ?p2)"
    if h: "status (fst (getMessagesBetweenUsers_handler lib params w)) = 400"
  proof -
    consider (a) "castObjectId lib ?p1 = None"
      | (b) "castObjectId lib ?p1 \<noteq> None" "castObjectId lib ?p2 = None"
      | (c) "castObjectId lib ?p1 \<noteq> None" "castObjectId lib ?p2 \<noteq> None"
      by blast
    then show ?thesis
    proof cases
      case a
      from h show ?thesis
        unfolding getMessagesBetweenUsers_handler_status
          getMessagesBetweenUsers_cases(2)[OF a]
        using a by (simp split: if_splits)
    next
      case b
      from h show ?thesis
        unfolding getMessagesBetweenUsers_handler_status
          getMessagesBetweenUsers_cases(3)[OF b]
        using b by (simp split: if_splits)
    next
      case c
      from getMessagesBetweenUsers_cases(4)[OF c, of w] obtain msgs where "?r = Inr msgs"
        by blast
      with h show ?thesis
        unfolding getMessagesBetweenUsers_handler_status by (simp split: if_splits)
    qed
  qed
  from f getMessagesBetweenUsers_cases[of lib u1 u2 w]
    getMessagesBetweenUsers_handler_status[of lib params w] param_route_pair[of a b]
  show ?thesis by blast
qed

lemma param_pair:
  "param [(''userId1'', x), (''userId2'', y)] ''userId1'' = JString x"
  "param [(''userId1'', x), (''userId2'', y)] ''userId2'' = JString y"
  by (simp_all add: param_def)

theorem getMessagesBetweenUsers_no_validation_witness:
  "fst (getMessagesBetweenUsers_handler mongoose
          [(''userId1'', js ''not-an-id''), (''userId2'', js ''64b000000000000000000b02'')]
          world2) =
     \<lparr>status = 500,
      body = ErrorBody (js ''Cast to ObjectId failed for value '' @ quoted (js ''not-an-id'')
                        @ js '' (type string) at path '' @ quoted (js ''sender'')
                        @ js '' for model '' @ quoted (js ''Message''))\<rparr>
   \<and> status (fst (getMessagesBetweenUsers_handler mongoose
          [(''userId1'', js ''64b000000000000000000a01''),
           (''userId2'', js ''64b000000000000000000b02'')] world2)) = 200
   \<and> status (fst (getMessagesBetweenUsers_handler mongoose
          [(''userId1'', js ''64b000000000000000000a01''),
           (''userId2'', js ''64b000000000000000000c03'')] world2)) = 404"
proof -
  note c = mongoose_cast_examples[unfolded hex_defs]
  have t: "\<not> js_includes (castErrorMessage mongoose ''Message'' ''sender'' (JString (js ''not-an-id'')))
             (js (''inv'' @ [CHR 0xE1] @ ''lido''))"
    by (simp add: mongoose_def js_def quoted_def)
  have m: "castErrorMessage mongoose ''Message'' ''sender'' (JString (js ''not-an-id'')) =
      js ''Cast to ObjectId failed for value '' @ quoted (js ''not-an-id'')
                        @ js '' (type string) at path '' @ quoted (js ''sender'')
                        @ js '' for model '' @ quoted (js ''Message'')"
    by (simp add: mongoose_def)
  have 1: "fst (getMessagesBetweenUsers_handler mongoose
          [(''userId1'', js ''not-an-id''), (''userId2'', js ''64b000000000000000000b02'')]
          world2) =
     \<lparr>status = 500,
      body = ErrorBody (castErrorMessage mongoose ''Message'' ''sender'' (JString (js ''not-an-id'')))\<rparr>"
    unfolding getMessagesBetweenUsers_handler_response param_pair
      getMessagesBetweenUsers_cases(2)[OF mongoose_not_an_id(1)]
    using t by simp
  have a: "fst (getMessagesBetweenUsers mongoose (JString (js ''64b000000000000000000a01''))
                  (JString (js ''64b000000000000000000b02'')) world2) =
           Inr (map (populate (users world2)) [msg2, msg1])"
    unfolding getMessagesBetweenUsers_run[OF c(1) c(2)]
    by (simp add: sort_createdAt_desc_def world2_def msg1_def msg2_def ids_differ)
  have b: "fst (getMessagesBetweenUsers mongoose (JString (js ''64b000000000000000000a01''))
                  (JString (js ''64b000000000000000000c03'')) world2) = Inr []"
    unfolding getMessagesBetweenUsers_run[OF c(1) c(3)]
    by (simp add: sort_createdAt_desc_def world2_def msg1_def msg2_def ids_differ)
  from getMessagesBetweenUsers_no_validation[of mongoose _ _ world2
         "[(''userId1'', js ''64b000000000000000000a01''),
           (''userId2'', js ''64b000000000000000000b02'')]"]
  have 2: "status (fst (getMessagesBetweenUsers_handler mongoose
          [(''userId1'', js ''64b000000000000000000a01''),
           (''userId2'', js ''64b000000000000000000b02'')] world2)) = 200"
    unfolding param_pair a by simp
  from getMessagesBetweenUsers_no_validation[of mongoose _ _ world2
         "[(''userId1'', js ''64b000000000000000000a01''),
           (''userId2'', js ''64b000000000000000000c03'')]"]
  have 3: "status (fst (getMessagesBetweenUsers_handler mongoose
          [(''userId1'', js ''64b000000000000000000a01''),
           (''userId2'', js ''64b000000000000000000c03'')] world2)) = 404"
    unfolding param_pair b by simp
  from 1 2 3 show ?thesis unfolding m by simp
qed

text \<open>
  The claim of C9 as it was stated fails for a malformed identifier that contains the word
  the handler looks for: the CastError quotes the identifier, and the handler answers 400,
  not 500.
\<close>

theorem getMessagesBetweenUsers_malformed_400_counterexample:
  "castObjectId mongoose (JString (js (''inv'' @ [CHR 0xE1] @ ''lido''))) = None
   \<and> fst (getMessagesBetweenUsers_handler mongoose
          [(''userId1'', js (''inv'' @ [CHR 0xE1] @ ''lido'')),
           (''userId2'', js ''64b000000000000000000b02'')] world2) =
     \<lparr>status = 400,
      body = ErrorBody (js ''Cast to ObjectId failed for value ''
                        @ quoted (js (''inv'' @ [CHR 0xE1] @ ''lido''))
                        @ js '' (type string) at path '' @ quoted (js ''sender'')
                        @ js '' for model '' @ quoted (js ''Message''))\<rparr>"
proof -
  have n: "castObjectId mongoose (JString (js (''inv'' @ [CHR 0xE1] @ ''lido''))) = None"
    by (simp add: mongoose_def ObjectId_of_def js_def)
  have t: "js_includes
             (castErrorMessage mongoose ''Message'' ''sender''
                (JString (js (''inv'' @ [CHR 0xE1] @ ''lido''))))
             (js (''inv'' @ [CHR 0xE1] @ ''lido''))"
    by (simp add: mongoose_def js_def quoted_def)
  have m: "castErrorMessage mongoose ''Message'' ''sender''
                (JString (js (''inv'' @ [CHR 0xE1] @ ''lido''))) =
      js ''Cast to ObjectId failed for value ''
                        @ quoted (js (''inv'' @ [CHR 0xE1] @ ''lido''))
                        @ js '' (type string) at path '' @ quoted (js ''sender'')
                        @ js '' for model '' @ quoted (js ''Message'')"
    by (simp add: mongoose_def)
  have "fst (getMessagesBetweenUsers_handler mongoose
          [(''userId1'', js (''inv'' @ [CHR 0xE1] @ ''lido'')),
           (''userId2'', js ''64b000000000000000000b02'')] world2) =
     \<lparr>status = 400,
      body = ErrorBody (castErrorMessage mongoose ''Message'' ''sender''
                (JString (js (''inv'' @ [CHR 0xE1] @ ''lido''))))\<rparr>"
    unfolding getMessagesBetweenUsers_handler_response param_pair
      getMessagesBetweenUsers_cases(2)[OF n]
    using t by simp
  with n show ?thesis unfolding m by simp
qed


end
